theory Spec2Isabelle
  imports Complex_Main
begin

section \<open>The SurrealDB HTTP client (\<^verbatim>\<open>src/surrealdb/http.py\<close>)\<close>

text \<open>
  The client turns each method call into one HTTP request and post-processes the decoded
  JSON reply. The embedding keeps the Python semantics the methods rely on explicit:
  \<^item> every \<^verbatim>\<open>raise\<close>, and every exception a Python primitive throws on the way
    (tuple unpacking, indexing, subscripting), is the \<open>Inl\<close> branch of a sum;
  \<^item> the aiohttp session is an object on a heap, so that a session handed in by the
    caller and a session created by the client can be told apart;
  \<^item> the network, \<^verbatim>\<open>json.loads\<close> and \<^verbatim>\<open>json.dumps\<close> are not code of
    this file: they are parameters of the model (the record \<open>env\<close>); the check that
    \<^verbatim>\<open>aiohttp.BasicAuth\<close> makes on the login is written out, since it decides
    whether a request is made at all;
  \<^item> \<^verbatim>\<open>await\<close> is sequential composition.
\<close>

subsection \<open>Python values\<close>

text \<open>
  What \<^verbatim>\<open>json.loads\<close> can return. A Python float is kept only up to what the client
  looks at, its truth value: a finite float stands for the real number it denotes, and the
  decoder also accepts \<^verbatim>\<open>NaN\<close> and the infinities. An object is the association list
  of a Python \<^verbatim>\<open>dict\<close> (keys are strings, no key twice). A Python string is a
  \<open>string\<close>, one \<open>char\<close> for each of its characters; the only character the client
  looks for is the colon.
\<close>

datatype py_float = Finite real | Infinity bool | NaN

datatype json =
    JNull
  | JBool bool
  | JInt int
  | JFloat py_float
  | JString string
  | JArray "json list"
  | JObject "(string \<times> json) list"

text \<open>
  The exceptions that can leave a method. \<open>SurrealException\<close> is the class the file
  declares (line 28), with its message; the next four are raised by Python itself;
  \<open>External\<close> is anything raised inside aiohttp or the json module (connection errors,
  \<^verbatim>\<open>JSONDecodeError\<close>, ...), named by a string.
\<close>

datatype py_error =
    SurrealException string
  | ValueError
  | IndexError
  | KeyError
  | TypeError
  | External string

text \<open>\<^verbatim>\<open>bool(x)\<close> for a decoded JSON value, as \<^verbatim>\<open>not response\<close> evaluates it.\<close>

fun py_bool :: "json \<Rightarrow> bool" where
  "py_bool JNull = False"
| "py_bool (JBool b) = b"
| "py_bool (JInt i) = (i \<noteq> 0)"
| "py_bool (JFloat (Finite r)) = (r \<noteq> 0)"
| "py_bool (JFloat (Infinity _)) = True"
| "py_bool (JFloat NaN) = True"
| "py_bool (JString s) = (s \<noteq> [])"
| "py_bool (JArray xs) = (xs \<noteq> [])"
| "py_bool (JObject kvs) = (kvs \<noteq> [])"

text \<open>\<^verbatim>\<open>x[0]\<close>: subscripting a decoded JSON value with the integer 0.\<close>

fun py_getitem0 :: "json \<Rightarrow> py_error + json" where
  "py_getitem0 (JArray []) = Inl IndexError"
| "py_getitem0 (JArray (x # xs)) = Inr x"
| "py_getitem0 (JString []) = Inl IndexError"
| "py_getitem0 (JString (c # cs)) = Inr (JString [c])"
| "py_getitem0 (JObject kvs) = Inl KeyError"
| "py_getitem0 JNull = Inl TypeError"
| "py_getitem0 (JBool b) = Inl TypeError"
| "py_getitem0 (JInt i) = Inl TypeError"
| "py_getitem0 (JFloat f) = Inl TypeError"

text \<open>\<^verbatim>\<open>x[k]\<close>: subscripting a decoded JSON value with a string key.\<close>

fun py_getitem_str :: "json \<Rightarrow> string \<Rightarrow> py_error + json" where
  "py_getitem_str (JObject kvs) k =
     (case map_of kvs k of None \<Rightarrow> Inl KeyError | Some v \<Rightarrow> Inr v)"
| "py_getitem_str (JArray xs) k = Inl TypeError"
| "py_getitem_str (JString s) k = Inl TypeError"
| "py_getitem_str JNull k = Inl TypeError"
| "py_getitem_str (JBool b) k = Inl TypeError"
| "py_getitem_str (JInt i) k = Inl TypeError"
| "py_getitem_str (JFloat f) k = Inl TypeError"

text \<open>
  \<^verbatim>\<open>s.split(sep)\<close> for a one-character separator: every occurrence of the separator
  cuts, and the result is never empty.
\<close>

fun py_split :: "char \<Rightarrow> string \<Rightarrow> string list" where
  "py_split sep [] = [[]]"
| "py_split sep (c # cs) =
     (if c = sep then [] # py_split sep cs
      else (case py_split sep cs of
              [] \<Rightarrow> [[c]]
            | p # ps \<Rightarrow> (c # p) # ps))"

text \<open>
  \<^verbatim>\<open>table, record_id = parts\<close>: unpacking into two names raises \<^verbatim>\<open>ValueError\<close>
  unless there are exactly two parts.
\<close>

fun unpack2 :: "string list \<Rightarrow> py_error + (string \<times> string option)" where
  "unpack2 [a, b] = Inr (a, Some b)"
| "unpack2 parts = Inl ValueError"

text \<open>\<^verbatim>\<open>bool(record_id)\<close> and \<^verbatim>\<open>f"{record_id}"\<close> for a value that is a string or None.\<close>

fun py_bool_str :: "string option \<Rightarrow> bool" where
  "py_bool_str None = False"
| "py_bool_str (Some s) = (s \<noteq> [])"

fun py_format :: "string option \<Rightarrow> string" where
  "py_format None = ''None''"
| "py_format (Some s) = s"

subsection \<open>Requests, sessions and the world outside\<close>

text \<open>
  \<^verbatim>\<open>aiohttp.BasicAuth(login=..., password=...)\<close>: the pair it holds. Its constructor
  refuses a login that contains a colon, with \<^verbatim>\<open>ValueError\<close>.
\<close>

datatype basic_auth = BasicAuth (login: string) (auth_password: string)

definition aiohttp_BasicAuth :: "string \<Rightarrow> string \<Rightarrow> py_error + basic_auth" where
  "aiohttp_BasicAuth l p =
     (if CHR '':'' \<in> set l then Inl ValueError else Inr (BasicAuth l p))"

text \<open>The keyword arguments of one call of \<^verbatim>\<open>self._session.request\<close> (lines 121-128).\<close>

record http_request =
  req_method :: string
  req_url :: string
  req_data :: "string option"
  req_params :: "json option"
  req_headers :: "(string \<times> string) list"
  req_auth :: basic_auth

text \<open>
  An aiohttp \<^verbatim>\<open>ClientSession\<close>: whether it has been closed, and the requests made
  through it so far, oldest first.
\<close>

record client_session =
  session_closed :: bool
  requests :: "http_request list"

text \<open>
  The heap of sessions (by address, with the next free address) and the state of the
  server, of any type \<open>'w\<close>.
\<close>

record 'w state =
  sessions :: "nat \<Rightarrow> client_session"
  next_session :: nat
  server :: 'w

text \<open>
  What the file calls and does not define: the transport (given the server's state, the
  session and the request, the text of the reply or the exception raised, and the
  server's new state), \<^verbatim>\<open>json.loads\<close> and \<^verbatim>\<open>json.dumps\<close> (whose first argument
  here is \<^verbatim>\<open>ensure_ascii\<close>).
\<close>

record 'w env =
  transport :: "'w \<Rightarrow> client_session \<Rightarrow> http_request \<Rightarrow> (string + string) \<times> 'w"
  json_loads :: "string \<Rightarrow> string + json"
  json_dumps :: "bool \<Rightarrow> json \<Rightarrow> string"

text \<open>\<^verbatim>\<open>aiohttp.ClientSession()\<close>: a new, open session at a fresh address.\<close>

definition ClientSession :: "'w state \<Rightarrow> nat \<times> 'w state" where
  "ClientSession s =
     (next_session s,
      s\<lparr>sessions := (sessions s)(next_session s := \<lparr>session_closed = False, requests = []\<rparr>),
        next_session := Suc (next_session s)\<rparr>)"

text \<open>\<^verbatim>\<open>session.close()\<close>: the session is closed from now on.\<close>

definition session_close :: "nat \<Rightarrow> 'w state \<Rightarrow> 'w state" where
  "session_close a s =
     s\<lparr>sessions := (sessions s)(a := (sessions s a)\<lparr>session_closed := True\<rparr>)\<rparr>"

text \<open>
  \<^verbatim>\<open>session.request(...)\<close> followed by \<^verbatim>\<open>surreal_response.text()\<close>: the call is
  recorded on the session, and the transport decides the outcome.
\<close>

definition session_request ::
  "'w env \<Rightarrow> nat \<Rightarrow> http_request \<Rightarrow> 'w state \<Rightarrow> (py_error + string) \<times> 'w state" where
  "session_request env a req s =
     (case transport env (server s) (sessions s a) req of
        (r, w) \<Rightarrow>
          (case r of Inl e \<Rightarrow> Inl (External e) | Inr body \<Rightarrow> Inr body,
           s\<lparr>sessions := (sessions s)(a := (sessions s a)\<lparr>requests := requests (sessions s a) @ [req]\<rparr>),
             server := w\<rparr>))"

subsection \<open>The client\<close>

text \<open>The fields \<^verbatim>\<open>__init__\<close> sets (lines 72-83); \<open>session\<close> is the session's address.\<close>

record SurrealHTTP =
  url :: string
  namespace :: string
  database :: string
  username :: string
  password :: string
  session :: nat
  should_close_session :: bool

text \<open>\<^verbatim>\<open>__init__\<close> (lines 63-83).\<close>

definition init ::
  "string \<Rightarrow> string \<Rightarrow> string \<Rightarrow> string \<Rightarrow> string \<Rightarrow> nat option \<Rightarrow> 'w state
     \<Rightarrow> SurrealHTTP \<times> 'w state" where
  "init u ns db usr pw sess s =
     (case sess of
        None \<Rightarrow>
          (case ClientSession s of
             (a, s') \<Rightarrow>
               (\<lparr>url = u, namespace = ns, database = db, username = usr, password = pw,
                 session = a, should_close_session = True\<rparr>, s'))
      | Some a \<Rightarrow>
          (\<lparr>url = u, namespace = ns, database = db, username = usr, password = pw,
            session = a, should_close_session = False\<rparr>, s))"

text \<open>
  \<^verbatim>\<open>_generate_headers_and_auth\<close> (lines 85-93): the exception of the
  \<^verbatim>\<open>BasicAuth\<close> constructor leaves the method.
\<close>

definition generate_headers_and_auth ::
  "SurrealHTTP \<Rightarrow> py_error + ((string \<times> string) list \<times> basic_auth)" where
  "generate_headers_and_auth c =
     (case aiohttp_BasicAuth (username c) (password c) of
        Inl e \<Rightarrow> Inl e
      | Inr auth \<Rightarrow>
          Inr ([(''NS'', namespace c),
                (''DB'', database c),
                (''Accept'', ''application/json''),
                (''Content-Type'', ''application/json'')],
               auth))"

text \<open>\<^verbatim>\<open>close\<close> (lines 108-111).\<close>

definition close :: "SurrealHTTP \<Rightarrow> 'w state \<Rightarrow> 'w state" where
  "close c s = (if should_close_session c then session_close (session c) s else s)"

text \<open>\<^verbatim>\<open>__aenter__\<close> (lines 95-97) and \<^verbatim>\<open>__aexit__\<close> (lines 99-106).\<close>

definition aenter :: "SurrealHTTP \<Rightarrow> 'w state \<Rightarrow> SurrealHTTP \<times> 'w state" where
  "aenter c s = (c, s)"

definition aexit :: "SurrealHTTP \<Rightarrow> 'w state \<Rightarrow> 'w state" where
  "aexit c s = close c s"

text \<open>
  \<^verbatim>\<open>async with client as db: body\<close>: Python calls \<^verbatim>\<open>__aenter__\<close>, runs the body with
  its result, and calls \<^verbatim>\<open>__aexit__\<close> whether the body returned or raised.
\<close>

definition async_with ::
  "SurrealHTTP \<Rightarrow> (SurrealHTTP \<Rightarrow> 'w state \<Rightarrow> 'r \<times> 'w state) \<Rightarrow> 'w state \<Rightarrow> 'r \<times> 'w state" where
  "async_with c body s =
     (case aenter c s of
        (db, s1) \<Rightarrow> (case body db s1 of (r, s2) \<Rightarrow> (r, aexit c s2)))"

text \<open>\<^verbatim>\<open>_request\<close> (lines 113-130).\<close>

definition request ::
  "'w env \<Rightarrow> SurrealHTTP \<Rightarrow> string \<Rightarrow> string \<Rightarrow> string option \<Rightarrow> json option \<Rightarrow> 'w state
     \<Rightarrow> (py_error + json) \<times> 'w state" where
  "request env c method uri data params s =
     (case generate_headers_and_auth c of
        Inl e \<Rightarrow> (Inl e, s)
      | Inr (headers, auth) \<Rightarrow>
          (case session_request env (session c)
                  \<lparr>req_method = method, req_url = url c @ uri, req_data = data,
                   req_params = params, req_headers = headers, req_auth = auth\<rparr> s of
             (Inl e, s') \<Rightarrow> (Inl e, s')
           | (Inr surreal_data, s') \<Rightarrow>
               (case json_loads env surreal_data of
                  Inl e \<Rightarrow> (Inl (External e), s')
                | Inr v \<Rightarrow> (Inr v, s'))))"

text \<open>\<^verbatim>\<open>signup\<close> (line 141) and \<^verbatim>\<open>signin\<close> (line 152).\<close>

definition signup :: "'w env \<Rightarrow> SurrealHTTP \<Rightarrow> json \<Rightarrow> 'w state \<Rightarrow> (py_error + json) \<times> 'w state" where
  "signup env c vars s = request env c ''POST'' ''/signup'' (Some (json_dumps env True vars)) None s"

definition signin :: "'w env \<Rightarrow> SurrealHTTP \<Rightarrow> json \<Rightarrow> 'w state \<Rightarrow> (py_error + json) \<times> 'w state" where
  "signin env c vars s = request env c ''POST'' ''/signin'' (Some (json_dumps env True vars)) None s"

text \<open>\<^verbatim>\<open>query\<close> (line 176); \<open>vars\<close> is None or a mapping.\<close>

definition query ::
  "'w env \<Rightarrow> SurrealHTTP \<Rightarrow> string \<Rightarrow> json option \<Rightarrow> 'w state \<Rightarrow> (py_error + json) \<times> 'w state" where
  "query env c sql vars s = request env c ''POST'' ''/sql'' (Some sql) vars s"

text \<open>
  The first line of select, create, update, patch and delete (lines 198, 230, 267, 301,
  324):
  \<^verbatim>\<open>table, record_id = thing.split(":") if ":" in thing else (thing, None)\<close>
\<close>

definition parse_thing :: "string \<Rightarrow> py_error + (string \<times> string option)" where
  "parse_thing thing =
     (if CHR '':'' \<in> set thing then unpack2 (py_split (CHR '':'') thing)
      else Inr (thing, None))"

text \<open>
  The \<^verbatim>\<open>uri\<close> argument of the same five methods (lines 201, 233, 270, 304, 327):
  \<^verbatim>\<open>f"/key/{table}/{record_id}" if record_id else f"/key/{table}"\<close>
\<close>

definition key_uri :: "string \<Rightarrow> string option \<Rightarrow> string" where
  "key_uri table record_id =
     (if py_bool_str record_id then ''/key/'' @ table @ ''/'' @ py_format record_id
      else ''/key/'' @ table)"

text \<open>\<^verbatim>\<open>response[0]["result"]\<close> (lines 205, 239, 274, 307).\<close>

definition first_result :: "json \<Rightarrow> py_error + json" where
  "first_result response =
     (case py_getitem0 response of
        Inl e \<Rightarrow> Inl e
      | Inr envelope \<Rightarrow> py_getitem_str envelope ''result'')"

text \<open>The message of line 204 and line 237.\<close>

definition not_found :: "string \<Rightarrow> string option \<Rightarrow> py_error" where
  "not_found table record_id =
     SurrealException (''Key '' @ py_format record_id @ '' not found in table '' @ table)"

text \<open>\<^verbatim>\<open>select\<close> (lines 198-205).\<close>

definition select :: "'w env \<Rightarrow> SurrealHTTP \<Rightarrow> string \<Rightarrow> 'w state \<Rightarrow> (py_error + json) \<times> 'w state" where
  "select env c thing s =
     (case parse_thing thing of
        Inl e \<Rightarrow> (Inl e, s)
      | Inr (table, record_id) \<Rightarrow>
          (case request env c ''GET'' (key_uri table record_id) None None s of
             (Inl e, s') \<Rightarrow> (Inl e, s')
           | (Inr response, s') \<Rightarrow>
               if \<not> py_bool response \<and> record_id \<noteq> None
               then (Inl (not_found table record_id), s')
               else (first_result response, s')))"

text \<open>\<^verbatim>\<open>create\<close> (lines 230-239); the default \<^verbatim>\<open>data=None\<close> is \<open>JNull\<close>.\<close>

definition create ::
  "'w env \<Rightarrow> SurrealHTTP \<Rightarrow> string \<Rightarrow> json \<Rightarrow> 'w state \<Rightarrow> (py_error + json) \<times> 'w state" where
  "create env c thing data s =
     (case parse_thing thing of
        Inl e \<Rightarrow> (Inl e, s)
      | Inr (table, record_id) \<Rightarrow>
          (case request env c ''POST'' (key_uri table record_id)
                  (Some (json_dumps env False data)) None s of
             (Inl e, s') \<Rightarrow> (Inl e, s')
           | (Inr response, s') \<Rightarrow>
               if \<not> py_bool response \<and> record_id \<noteq> None
               then (Inl (not_found table record_id), s')
               else (first_result response, s')))"

text \<open>\<^verbatim>\<open>update\<close> (lines 267-274).\<close>

definition update ::
  "'w env \<Rightarrow> SurrealHTTP \<Rightarrow> string \<Rightarrow> json \<Rightarrow> 'w state \<Rightarrow> (py_error + json) \<times> 'w state" where
  "update env c thing data s =
     (case parse_thing thing of
        Inl e \<Rightarrow> (Inl e, s)
      | Inr (table, record_id) \<Rightarrow>
          (case request env c ''PUT'' (key_uri table record_id)
                  (Some (json_dumps env False data)) None s of
             (Inl e, s') \<Rightarrow> (Inl e, s')
           | (Inr response, s') \<Rightarrow> (first_result response, s')))"

text \<open>\<^verbatim>\<open>patch\<close> (lines 301-307).\<close>

definition patch ::
  "'w env \<Rightarrow> SurrealHTTP \<Rightarrow> string \<Rightarrow> json \<Rightarrow> 'w state \<Rightarrow> (py_error + json) \<times> 'w state" where
  "patch env c thing data s =
     (case parse_thing thing of
        Inl e \<Rightarrow> (Inl e, s)
      | Inr (table, record_id) \<Rightarrow>
          (case request env c ''PATCH'' (key_uri table record_id)
                  (Some (json_dumps env False data)) None s of
             (Inl e, s') \<Rightarrow> (Inl e, s')
           | (Inr response, s') \<Rightarrow> (first_result response, s')))"

text \<open>\<^verbatim>\<open>delete\<close> (lines 324-328).\<close>

definition delete :: "'w env \<Rightarrow> SurrealHTTP \<Rightarrow> string \<Rightarrow> 'w state \<Rightarrow> (py_error + json) \<times> 'w state" where
  "delete env c thing s =
     (case parse_thing thing of
        Inl e \<Rightarrow> (Inl e, s)
      | Inr (table, record_id) \<Rightarrow> request env c ''DELETE'' (key_uri table record_id) None None s)"

subsection \<open>Vocabulary of the specification\<close>

text \<open>
  The request an operation is specified to issue: the method, the path appended to the
  base URL, the body, the query parameters, and the headers and credentials of the
  connection. A login is accepted when \<^verbatim>\<open>aiohttp.BasicAuth\<close> takes it: it has no
  colon.
\<close>

definition the_request ::
  "SurrealHTTP \<Rightarrow> string \<Rightarrow> string \<Rightarrow> string option \<Rightarrow> json option \<Rightarrow> http_request" where
  "the_request c method uri data params =
     \<lparr>req_method = method, req_url = url c @ uri, req_data = data, req_params = params,
      req_headers = [(''NS'', namespace c), (''DB'', database c),
                     (''Accept'', ''application/json''), (''Content-Type'', ''application/json'')],
      req_auth = BasicAuth (username c) (password c)\<rparr>"

definition accepted_login :: "SurrealHTTP \<Rightarrow> bool" where
  "accepted_login c = (CHR '':'' \<notin> set (username c))"

text \<open>
  The decomposition of a thing in the specification's words: at the first colon, into the
  part before it and the part after it; no record id when there is no colon.
\<close>

definition split_at_first_colon :: "string \<Rightarrow> string \<times> string option" where
  "split_at_first_colon thing =
     (if CHR '':'' \<in> set thing
      then (takeWhile (\<lambda>x. x \<noteq> CHR '':'') thing,
            Some (tl (dropWhile (\<lambda>x. x \<noteq> CHR '':'') thing)))
      else (thing, None))"

text \<open>The requests made through the session at address \<open>a\<close> between two states.\<close>

definition new_requests :: "nat \<Rightarrow> 'w state \<Rightarrow> 'w state \<Rightarrow> http_request list" where
  "new_requests a s s' = drop (length (requests (sessions s a))) (requests (sessions s' a))"

text \<open>
  What the server's answer to a request decodes to in a state: the parsed JSON, or the
  exception of the transport or of the decoder.
\<close>

definition decoded_reply :: "'w env \<Rightarrow> 'w state \<Rightarrow> nat \<Rightarrow> http_request \<Rightarrow> py_error + json" where
  "decoded_reply env s a req =
     (case fst (transport env (server s) (sessions s a) req) of
        Inl e \<Rightarrow> Inl (External e)
      | Inr body \<Rightarrow> (case json_loads env body of Inl e \<Rightarrow> Inl (External e) | Inr v \<Rightarrow> Inr v))"

text \<open>
  A request carries the identity of a connection: the four headers and the Basic Auth
  credentials.
\<close>

definition carries_identity :: "string \<Rightarrow> string \<Rightarrow> string \<Rightarrow> string \<Rightarrow> http_request \<Rightarrow> bool" where
  "carries_identity ns db usr pw r =
     (map_of (req_headers r) ''NS'' = Some ns \<and>
      map_of (req_headers r) ''DB'' = Some db \<and>
      map_of (req_headers r) ''Accept'' = Some ''application/json'' \<and>
      map_of (req_headers r) ''Content-Type'' = Some ''application/json'' \<and>
      req_auth r = BasicAuth usr pw)"

subsection \<open>A stub server for concrete runs\<close>

text \<open>
  A server that answers every request with the same text, a decoder that knows this text
  only, and an encoder that writes a placeholder; a state with one open session, at
  address 0, created by the caller; and a client that borrows it.
\<close>

definition stub_env :: "string \<Rightarrow> json \<Rightarrow> unit env" where
  "stub_env body v =
     \<lparr>transport = (\<lambda>w sess req. (Inr body, w)),
      json_loads = (\<lambda>b. if b = body then Inr v else Inl ''JSONDecodeError''),
      json_dumps = (\<lambda>ensure_ascii d. ''<json>'')\<rparr>"

definition stub_state :: "unit state" where
  "stub_state =
     \<lparr>sessions = (\<lambda>a. \<lparr>session_closed = False, requests = []\<rparr>), next_session = 1, server = ()\<rparr>"

definition stub_client :: SurrealHTTP where
  "stub_client =
     fst (init ''http://localhost:8000'' ''test'' ''test'' ''root'' ''root'' (Some 0) stub_state)"

text \<open>A reply of one envelope, as the server writes it and as it decodes.\<close>

definition envelope_text :: string where
  "envelope_text =
     ''[{\"time\": \"1ms\", \"status\": \"OK\", \"result\": [{\"id\": \"person:tobie\"}]}]''"

definition envelope_json :: json where
  "envelope_json =
     JArray [JObject [(''time'', JString ''1ms''), (''status'', JString ''OK''),
                      (''result'', JArray [JObject [(''id'', JString ''person:tobie'')]])]]"

section \<open>Auxiliary facts\<close>

subsection \<open>Splitting at colons\<close>

lemma py_split_not_Nil: "py_split sep s \<noteq> []"
  by (induction s) (auto split: list.splits)

lemma py_split_no_sep: "sep \<notin> set s \<Longrightarrow> py_split sep s = [s]"
  by (induction s) auto

lemma py_split_append: "sep \<notin> set a \<Longrightarrow> py_split sep (a @ sep # b) = a # py_split sep b"
  by (induction a) auto

lemma parse_thing_no_colon: "CHR '':'' \<notin> set thing \<Longrightarrow> parse_thing thing = Inr (thing, None)"
  by (simp add: parse_thing_def)

lemma parse_thing_one_colon:
  "CHR '':'' \<notin> set a \<Longrightarrow> CHR '':'' \<notin> set b \<Longrightarrow>
   parse_thing (a @ CHR '':'' # b) = Inr (a, Some b)"
  by (simp add: parse_thing_def py_split_append py_split_no_sep)

lemma parse_thing_more_colons:
  assumes a: "CHR '':'' \<notin> set a" and b: "CHR '':'' \<in> set b"
  shows "parse_thing (a @ CHR '':'' # b) = Inl ValueError"
proof -
  from b obtain b1 b2 where "b = b1 @ CHR '':'' # b2" "CHR '':'' \<notin> set b1"
    by (meson split_list_first)
  then have "py_split (CHR '':'') b = b1 # py_split (CHR '':'') b2"
    by (simp add: py_split_append)
  moreover obtain p ps where "py_split (CHR '':'') b2 = p # ps"
    using py_split_not_Nil by (cases "py_split (CHR '':'') b2") auto
  ultimately show ?thesis using a
    by (simp add: parse_thing_def py_split_append)
qed

lemma split_at_first_colon_append:
  "CHR '':'' \<notin> set a \<Longrightarrow> split_at_first_colon (a @ CHR '':'' # b) = (a, Some b)"
  by (induction a) (auto simp: split_at_first_colon_def)

lemma parse_thing_against_first_colon:
  "parse_thing thing =
     (case split_at_first_colon thing of
        (t, None) \<Rightarrow> Inr (t, None)
      | (t, Some r) \<Rightarrow> if CHR '':'' \<in> set r then Inl ValueError else Inr (t, Some r))"
proof (cases "CHR '':'' \<in> set thing")
  case False
  then show ?thesis
    by (simp add: parse_thing_no_colon split_at_first_colon_def)
next
  case True
  then obtain a b where ab: "thing = a @ CHR '':'' # b" "CHR '':'' \<notin> set a"
    by (meson split_list_first)
  then show ?thesis
    by (simp add: split_at_first_colon_append parse_thing_one_colon parse_thing_more_colons)
qed

subsection \<open>One request, its reply, and the sessions\<close>

lemma request_refused:
  "\<not> accepted_login c \<Longrightarrow> request env c method uri data params s = (Inl ValueError, s)"
  by (simp add: request_def generate_headers_and_auth_def aiohttp_BasicAuth_def
      accepted_login_def)

lemma request_result:
  "accepted_login c \<Longrightarrow>
   fst (request env c method uri data params s) =
     decoded_reply env s (session c) (the_request c method uri data params)"
  by (simp add: request_def session_request_def generate_headers_and_auth_def
      aiohttp_BasicAuth_def accepted_login_def decoded_reply_def the_request_def
      split: prod.splits sum.splits)

lemma request_new:
  "accepted_login c \<Longrightarrow>
   new_requests (session c) s (snd (request env c method uri data params s)) =
     [the_request c method uri data params]"
  by (simp add: request_def session_request_def generate_headers_and_auth_def
      aiohttp_BasicAuth_def accepted_login_def new_requests_def the_request_def
      split: prod.splits sum.splits)

lemma request_closed:
  "session_closed (sessions (snd (request env c method uri data params s)) a) =
     session_closed (sessions s a)"
  by (simp add: request_def session_request_def generate_headers_and_auth_def
      aiohttp_BasicAuth_def split: prod.splits sum.splits)

lemma new_requests_same: "new_requests a s s = []"
  by (simp add: new_requests_def)

lemma decoded_reply_not_Surreal: "decoded_reply env s a req \<noteq> Inl (SurrealException m)"
  by (simp add: decoded_reply_def split: sum.splits)

lemma py_getitem0_err:
  "py_getitem0 x = Inl e \<Longrightarrow> e = IndexError \<or> e = KeyError \<or> e = TypeError"
  by (cases x rule: py_getitem0.cases) auto

lemma py_getitem_str_err: "py_getitem_str x k = Inl e \<Longrightarrow> e = KeyError \<or> e = TypeError"
  by (cases x) (auto split: option.splits)

lemma first_result_err:
  "first_result response = Inl e \<Longrightarrow> e = IndexError \<or> e = KeyError \<or> e = TypeError"
  by (auto simp: first_result_def split: sum.splits dest: py_getitem0_err py_getitem_str_err)

lemma first_result_not_Surreal: "first_result response \<noteq> Inl (SurrealException m)"
  using first_result_err by blast

subsection \<open>The five operations on a thing that decomposes\<close>

lemma select_result:
  "accepted_login c \<Longrightarrow> parse_thing thing = Inr (t, r) \<Longrightarrow>
   fst (select env c thing s) =
     (case decoded_reply env s (session c) (the_request c ''GET'' (key_uri t r) None None) of
        Inl e \<Rightarrow> Inl e
      | Inr response \<Rightarrow>
          if \<not> py_bool response \<and> r \<noteq> None then Inl (not_found t r)
          else first_result response)"
  using request_result [of c env "''GET''" "key_uri t r" None None s]
  by (cases "request env c ''GET'' (key_uri t r) None None s")
     (auto simp: select_def split: sum.splits)

lemma create_result:
  "accepted_login c \<Longrightarrow> parse_thing thing = Inr (t, r) \<Longrightarrow>
   fst (create env c thing data s) =
     (case decoded_reply env s (session c)
             (the_request c ''POST'' (key_uri t r) (Some (json_dumps env False data)) None) of
        Inl e \<Rightarrow> Inl e
      | Inr response \<Rightarrow>
          if \<not> py_bool response \<and> r \<noteq> None then Inl (not_found t r)
          else first_result response)"
  using request_result [of c env "''POST''" "key_uri t r" "Some (json_dumps env False data)" None s]
  by (cases "request env c ''POST'' (key_uri t r) (Some (json_dumps env False data)) None s")
     (auto simp: create_def split: sum.splits)

lemma update_result:
  "accepted_login c \<Longrightarrow> parse_thing thing = Inr (t, r) \<Longrightarrow>
   fst (update env c thing data s) =
     (case decoded_reply env s (session c)
             (the_request c ''PUT'' (key_uri t r) (Some (json_dumps env False data)) None) of
        Inl e \<Rightarrow> Inl e
      | Inr response \<Rightarrow> first_result response)"
  using request_result [of c env "''PUT''" "key_uri t r" "Some (json_dumps env False data)" None s]
  by (cases "request env c ''PUT'' (key_uri t r) (Some (json_dumps env False data)) None s")
     (auto simp: update_def split: sum.splits)

lemma patch_result:
  "accepted_login c \<Longrightarrow> parse_thing thing = Inr (t, r) \<Longrightarrow>
   fst (patch env c thing data s) =
     (case decoded_reply env s (session c)
             (the_request c ''PATCH'' (key_uri t r) (Some (json_dumps env False data)) None) of
        Inl e \<Rightarrow> Inl e
      | Inr response \<Rightarrow> first_result response)"
  using request_result [of c env "''PATCH''" "key_uri t r" "Some (json_dumps env False data)" None s]
  by (cases "request env c ''PATCH'' (key_uri t r) (Some (json_dumps env False data)) None s")
     (auto simp: patch_def split: sum.splits)

lemma delete_result:
  "accepted_login c \<Longrightarrow> parse_thing thing = Inr (t, r) \<Longrightarrow>
   fst (delete env c thing s) =
     decoded_reply env s (session c) (the_request c ''DELETE'' (key_uri t r) None None)"
  by (simp add: delete_def request_result)

lemma select_new:
  "accepted_login c \<Longrightarrow> parse_thing thing = Inr (t, r) \<Longrightarrow>
   new_requests (session c) s (snd (select env c thing s)) =
     [the_request c ''GET'' (key_uri t r) None None]"
  using request_new [of c s env "''GET''" "key_uri t r" None None]
  by (cases "request env c ''GET'' (key_uri t r) None None s")
     (auto simp: select_def split: sum.splits)

lemma create_new:
  "accepted_login c \<Longrightarrow> parse_thing thing = Inr (t, r) \<Longrightarrow>
   new_requests (session c) s (snd (create env c thing data s)) =
     [the_request c ''POST'' (key_uri t r) (Some (json_dumps env False data)) None]"
  using request_new [of c s env "''POST''" "key_uri t r" "Some (json_dumps env False data)" None]
  by (cases "request env c ''POST'' (key_uri t r) (Some (json_dumps env False data)) None s")
     (auto simp: create_def split: sum.splits)

lemma update_new:
  "accepted_login c \<Longrightarrow> parse_thing thing = Inr (t, r) \<Longrightarrow>
   new_requests (session c) s (snd (update env c thing data s)) =
     [the_request c ''PUT'' (key_uri t r) (Some (json_dumps env False data)) None]"
  using request_new [of c s env "''PUT''" "key_uri t r" "Some (json_dumps env False data)" None]
  by (cases "request env c ''PUT'' (key_uri t r) (Some (json_dumps env False data)) None s")
     (auto simp: update_def split: sum.splits)

lemma patch_new:
  "accepted_login c \<Longrightarrow> parse_thing thing = Inr (t, r) \<Longrightarrow>
   new_requests (session c) s (snd (patch env c thing data s)) =
     [the_request c ''PATCH'' (key_uri t r) (Some (json_dumps env False data)) None]"
  using request_new [of c s env "''PATCH''" "key_uri t r" "Some (json_dumps env False data)" None]
  by (cases "request env c ''PATCH'' (key_uri t r) (Some (json_dumps env False data)) None s")
     (auto simp: patch_def split: sum.splits)

lemma delete_new:
  "accepted_login c \<Longrightarrow> parse_thing thing = Inr (t, r) \<Longrightarrow>
   new_requests (session c) s (snd (delete env c thing s)) =
     [the_request c ''DELETE'' (key_uri t r) None None]"
  by (simp add: delete_def request_new)

lemma unparsed:
  assumes "parse_thing thing = Inl e"
  shows "select env c thing s = (Inl e, s)"
    and "create env c thing data s = (Inl e, s)"
    and "update env c thing data s = (Inl e, s)"
    and "patch env c thing data s = (Inl e, s)"
    and "delete env c thing s = (Inl e, s)"
  using assms by (simp_all add: select_def create_def update_def patch_def delete_def)

subsection \<open>What the operations send and unwrap\<close>

lemma refused_login:
  assumes "\<not> accepted_login c"
  shows "signup env c vars s = (Inl ValueError, s)"
    and "signin env c vars s = (Inl ValueError, s)"
    and "query env c sql params s = (Inl ValueError, s)"
    and "select env c thing s = (Inl ValueError, s)"
    and "create env c thing data s = (Inl ValueError, s)"
    and "update env c thing data s = (Inl ValueError, s)"
    and "patch env c thing data s = (Inl ValueError, s)"
    and "delete env c thing s = (Inl ValueError, s)"
proof -
  have p: "parse_thing thing = Inl e \<Longrightarrow> e = ValueError" for e
    by (auto simp: parse_thing_def split: if_splits elim: unpack2.elims)
  show "signup env c vars s = (Inl ValueError, s)"
    and "signin env c vars s = (Inl ValueError, s)"
    and "query env c sql params s = (Inl ValueError, s)"
    using assms by (simp_all add: signup_def signin_def query_def request_refused)
  show "select env c thing s = (Inl ValueError, s)"
    using assms p by (cases "parse_thing thing") (auto simp: select_def request_refused)
  show "create env c thing data s = (Inl ValueError, s)"
    using assms p by (cases "parse_thing thing") (auto simp: create_def request_refused)
  show "update env c thing data s = (Inl ValueError, s)"
    using assms p by (cases "parse_thing thing") (auto simp: update_def request_refused)
  show "patch env c thing data s = (Inl ValueError, s)"
    using assms p by (cases "parse_thing thing") (auto simp: patch_def request_refused)
  show "delete env c thing s = (Inl ValueError, s)"
    using assms p by (cases "parse_thing thing") (auto simp: delete_def request_refused)
qed

lemma the_request_carries_identity:
  "carries_identity (namespace c) (database c) (username c) (password c)
     (the_request c method uri data params)"
  by (simp add: carries_identity_def the_request_def)

lemma plain_operations_new:
  "new_requests (session c) s (snd (signup env c vars s)) =
     (if accepted_login c
      then [the_request c ''POST'' ''/signup'' (Some (json_dumps env True vars)) None] else [])"
  "new_requests (session c) s (snd (signin env c vars s)) =
     (if accepted_login c
      then [the_request c ''POST'' ''/signin'' (Some (json_dumps env True vars)) None] else [])"
  "new_requests (session c) s (snd (query env c sql params s)) =
     (if accepted_login c then [the_request c ''POST'' ''/sql'' (Some sql) params] else [])"
  by (cases "accepted_login c";
      simp add: signup_def signin_def query_def request_new request_refused new_requests_same)+

lemma select_new_cases:
  "new_requests (session c) s (snd (select env c thing s)) =
     (case parse_thing thing of
        Inl e \<Rightarrow> []
      | Inr (t, r) \<Rightarrow>
          if accepted_login c then [the_request c ''GET'' (key_uri t r) None None]
          else [])"
proof (cases "parse_thing thing")
  case (Inl e)
  then show ?thesis
    by (simp add: unparsed new_requests_same)
next
  case (Inr tr)
  obtain t r where tr: "tr = (t, r)"
    by (cases tr)
  show ?thesis
  proof (cases "accepted_login c")
    case True
    with Inr tr show ?thesis
      by (simp add: select_new)
  next
    case False
    with Inr tr show ?thesis
      by (simp add: refused_login new_requests_same)
  qed
qed

lemma create_new_cases:
  "new_requests (session c) s (snd (create env c thing data s)) =
     (case parse_thing thing of
        Inl e \<Rightarrow> []
      | Inr (t, r) \<Rightarrow>
          if accepted_login c then [the_request c ''POST'' (key_uri t r) (Some (json_dumps env False data)) None]
          else [])"
proof (cases "parse_thing thing")
  case (Inl e)
  then show ?thesis
    by (simp add: unparsed new_requests_same)
next
  case (Inr tr)
  obtain t r where tr: "tr = (t, r)"
    by (cases tr)
  show ?thesis
  proof (cases "accepted_login c")
    case True
    with Inr tr show ?thesis
      by (simp add: create_new)
  next
    case False
    with Inr tr show ?thesis
      by (simp add: refused_login new_requests_same)
  qed
qed

lemma update_new_cases:
  "new_requests (session c) s (snd (update env c thing data s)) =
     (case parse_thing thing of
        Inl e \<Rightarrow> []
      | Inr (t, r) \<Rightarrow>
          if accepted_login c then [the_request c ''PUT'' (key_uri t r) (Some (json_dumps env False data)) None]
          else [])"
proof (cases "parse_thing thing")
  case (Inl e)
  then show ?thesis
    by (simp add: unparsed new_requests_same)
next
  case (Inr tr)
  obtain t r where tr: "tr = (t, r)"
    by (cases tr)
  show ?thesis
  proof (cases "accepted_login c")
    case True
    with Inr tr show ?thesis
      by (simp add: update_new)
  next
    case False
    with Inr tr show ?thesis
      by (simp add: refused_login new_requests_same)
  qed
qed

lemma patch_new_cases:
  "new_requests (session c) s (snd (patch env c thing data s)) =
     (case parse_thing thing of
        Inl e \<Rightarrow> []
      | Inr (t, r) \<Rightarrow>
          if accepted_login c then [the_request c ''PATCH'' (key_uri t r) (Some (json_dumps env False data)) None]
          else [])"
proof (cases "parse_thing thing")
  case (Inl e)
  then show ?thesis
    by (simp add: unparsed new_requests_same)
next
  case (Inr tr)
  obtain t r where tr: "tr = (t, r)"
    by (cases tr)
  show ?thesis
  proof (cases "accepted_login c")
    case True
    with Inr tr show ?thesis
      by (simp add: patch_new)
  next
    case False
    with Inr tr show ?thesis
      by (simp add: refused_login new_requests_same)
  qed
qed

lemma delete_new_cases:
  "new_requests (session c) s (snd (delete env c thing s)) =
     (case parse_thing thing of
        Inl e \<Rightarrow> []
      | Inr (t, r) \<Rightarrow>
          if accepted_login c then [the_request c ''DELETE'' (key_uri t r) None None]
          else [])"
proof (cases "parse_thing thing")
  case (Inl e)
  then show ?thesis
    by (simp add: unparsed new_requests_same)
next
  case (Inr tr)
  obtain t r where tr: "tr = (t, r)"
    by (cases tr)
  show ?thesis
  proof (cases "accepted_login c")
    case True
    with Inr tr show ?thesis
      by (simp add: delete_new)
  next
    case False
    with Inr tr show ?thesis
      by (simp add: refused_login new_requests_same)
  qed
qed

lemmas key_operations_new =
  select_new_cases create_new_cases update_new_cases patch_new_cases delete_new_cases

lemma key_uri_cases:
  "key_uri table rid =
     (case rid of
        None \<Rightarrow> ''/key/'' @ table
      | Some i \<Rightarrow> if i = [] then ''/key/'' @ table else ''/key/'' @ table @ ''/'' @ i)"
  by (cases rid) (simp_all add: key_uri_def)

lemma first_result_Inr_iff:
  "first_result response = Inr v \<longleftrightarrow>
     (\<exists>kvs rest. response = JArray (JObject kvs # rest) \<and> map_of kvs ''result'' = Some v)"
proof (cases response rule: py_getitem0.cases)
  case (2 x xs)
  then show ?thesis
    by (cases x) (auto simp: first_result_def split: option.splits)
qed (simp_all add: first_result_def)

lemma unwrapped_Inr_iff:
  "((case reply of Inl e \<Rightarrow> Inl e | Inr response \<Rightarrow> first_result response) = Inr v) =
     (\<exists>kvs rest. reply = Inr (JArray (JObject kvs # rest)) \<and> map_of kvs ''result'' = Some v)"
  by (cases reply) (simp_all add: first_result_Inr_iff)

subsection \<open>Closing\<close>

lemma session_close_closed: "session_closed (sessions (session_close a s) a)"
  by (simp add: session_close_def)

lemma close_idem: "close c (close c s) = close c s"
  by (simp add: close_def session_close_def)

lemma operations_close_nothing:
  "session_closed (sessions (snd (signup env c vars s)) b) = session_closed (sessions s b)"
  "session_closed (sessions (snd (signin env c vars s)) b) = session_closed (sessions s b)"
  "session_closed (sessions (snd (query env c sql params s)) b) = session_closed (sessions s b)"
  "session_closed (sessions (snd (select env c thing s)) b) = session_closed (sessions s b)"
  "session_closed (sessions (snd (create env c thing data s)) b) = session_closed (sessions s b)"
  "session_closed (sessions (snd (update env c thing data s)) b) = session_closed (sessions s b)"
  "session_closed (sessions (snd (patch env c thing data s)) b) = session_closed (sessions s b)"
  "session_closed (sessions (snd (delete env c thing s)) b) = session_closed (sessions s b)"
proof -
  show "session_closed (sessions (snd (signup env c vars s)) b) = session_closed (sessions s b)"
    by (simp add: signup_def request_closed)
  show "session_closed (sessions (snd (signin env c vars s)) b) = session_closed (sessions s b)"
    by (simp add: signin_def request_closed)
  show "session_closed (sessions (snd (query env c sql params s)) b) = session_closed (sessions s b)"
    by (simp add: query_def request_closed)
  show "session_closed (sessions (snd (select env c thing s)) b) = session_closed (sessions s b)"
  proof (cases "parse_thing thing")
    case (Inl e)
    then show ?thesis by (simp add: unparsed)
  next
    case (Inr tr)
    obtain t r where "tr = (t, r)" by (cases tr)
    with Inr show ?thesis
      using request_closed [of env c "''GET''" "key_uri t r" None None s b]
      by (cases "request env c ''GET'' (key_uri t r) None None s")
         (auto simp: select_def split: sum.splits)
  qed
  show "session_closed (sessions (snd (create env c thing data s)) b) = session_closed (sessions s b)"
  proof (cases "parse_thing thing")
    case (Inl e)
    then show ?thesis by (simp add: unparsed)
  next
    case (Inr tr)
    obtain t r where "tr = (t, r)" by (cases tr)
    with Inr show ?thesis
      using request_closed [of env c "''POST''" "key_uri t r" "Some (json_dumps env False data)" None s b]
      by (cases "request env c ''POST'' (key_uri t r) (Some (json_dumps env False data)) None s")
         (auto simp: create_def split: sum.splits)
  qed
  show "session_closed (sessions (snd (update env c thing data s)) b) = session_closed (sessions s b)"
  proof (cases "parse_thing thing")
    case (Inl e)
    then show ?thesis by (simp add: unparsed)
  next
    case (Inr tr)
    obtain t r where "tr = (t, r)" by (cases tr)
    with Inr show ?thesis
      using request_closed [of env c "''PUT''" "key_uri t r" "Some (json_dumps env False data)" None s b]
      by (cases "request env c ''PUT'' (key_uri t r) (Some (json_dumps env False data)) None s")
         (auto simp: update_def split: sum.splits)
  qed
  show "session_closed (sessions (snd (patch env c thing data s)) b) = session_closed (sessions s b)"
  proof (cases "parse_thing thing")
    case (Inl e)
    then show ?thesis by (simp add: unparsed)
  next
    case (Inr tr)
    obtain t r where "tr = (t, r)" by (cases tr)
    with Inr show ?thesis
      using request_closed [of env c "''PATCH''" "key_uri t r" "Some (json_dumps env False data)" None s b]
      by (cases "request env c ''PATCH'' (key_uri t r) (Some (json_dumps env False data)) None s")
         (auto simp: patch_def split: sum.splits)
  qed
  show "session_closed (sessions (snd (delete env c thing s)) b) = session_closed (sessions s b)"
  proof (cases "parse_thing thing")
    case (Inl e)
    then show ?thesis by (simp add: unparsed)
  next
    case (Inr tr)
    obtain t r where "tr = (t, r)" by (cases tr)
    with Inr show ?thesis
      by (simp add: delete_def request_closed)
  qed
qed

subsection \<open>Concrete runs against the stub\<close>

lemma stub_reply: "decoded_reply (stub_env body v) s a req = Inr v"
  by (simp add: decoded_reply_def stub_env_def)

lemma stub_login: "accepted_login stub_client"
  by (simp add: accepted_login_def stub_client_def init_def)

section \<open>The claims\<close>

subsection \<open>Decomposing the thing\<close>

text \<open>
  Claim C1 says that select, create, update, patch and delete split the thing at its
  first colon, so that \<^verbatim>\<open>"person:a:b"\<close> is the table \<^verbatim>\<open>person\<close> and the record
  id \<^verbatim>\<open>a:b\<close>. The code splits at every colon and unpacks the parts into two names:
  on \<^verbatim>\<open>"person:a:b"\<close> each of the five operations raises \<^verbatim>\<open>ValueError\<close> before
  any request is made, and the state is unchanged. With no colon, and with exactly one,
  the code decomposes the thing as the claim says; it raises exactly when the part after
  the first colon has a colon of its own (\<open>parse_thing_against_first_colon\<close>).
\<close>

theorem thing_with_two_colons_raises:
  "split_at_first_colon ''person:a:b'' = (''person'', Some ''a:b'') \<and>
   parse_thing ''person:a:b'' = Inl ValueError \<and>
   select env c ''person:a:b'' s = (Inl ValueError, s) \<and>
   create env c ''person:a:b'' data s = (Inl ValueError, s) \<and>
   update env c ''person:a:b'' data s = (Inl ValueError, s) \<and>
   patch env c ''person:a:b'' data s = (Inl ValueError, s) \<and>
   delete env c ''person:a:b'' s = (Inl ValueError, s)"
proof -
  have "parse_thing ''person:a:b'' = Inl ValueError"
    by (simp add: parse_thing_def)
  moreover have "split_at_first_colon ''person:a:b'' = (''person'', Some ''a:b'')"
    by (simp add: split_at_first_colon_def)
  ultimately show ?thesis
    by (simp add: unparsed)
qed

subsection \<open>The not-found error\<close>

text \<open>
  Claim C2: for select and for create, on a client whose login \<^verbatim>\<open>aiohttp.BasicAuth\<close>
  accepts, when a record id was parsed from the thing and the decoded response is empty
  (falsy, as \<^verbatim>\<open>not response\<close> tests it), the operation raises
  \<open>SurrealException\<close>, the error kind the file declares for it, with the message of lines
  204 and 237; when the thing is a table only, neither operation raises a
  \<open>SurrealException\<close>, whatever the client and whatever the server answers.
\<close>

theorem not_found_only_when_record_scoped:
  "(accepted_login c \<and>
    parse_thing thing = Inr (table, Some rid) \<and>
    decoded_reply env s (session c) (the_request c ''GET'' (key_uri table (Some rid)) None None)
      = Inr response \<and>
    \<not> py_bool response
    \<longrightarrow> fst (select env c thing s)
          = Inl (SurrealException (''Key '' @ rid @ '' not found in table '' @ table))) \<and>
   (accepted_login c \<and>
    parse_thing thing = Inr (table, Some rid) \<and>
    decoded_reply env s (session c)
      (the_request c ''POST'' (key_uri table (Some rid)) (Some (json_dumps env False data)) None)
      = Inr response \<and>
    \<not> py_bool response
    \<longrightarrow> fst (create env c thing data s)
          = Inl (SurrealException (''Key '' @ rid @ '' not found in table '' @ table))) \<and>
   (parse_thing thing = Inr (table, None)
    \<longrightarrow> (\<forall>m. fst (select env c thing s) \<noteq> Inl (SurrealException m)) \<and>
        (\<forall>m. fst (create env c thing data s) \<noteq> Inl (SurrealException m)))"
proof (intro conjI impI allI)
  assume "accepted_login c \<and> parse_thing thing = Inr (table, Some rid) \<and>
    decoded_reply env s (session c) (the_request c ''GET'' (key_uri table (Some rid)) None None)
      = Inr response \<and> \<not> py_bool response"
  then show "fst (select env c thing s)
          = Inl (SurrealException (''Key '' @ rid @ '' not found in table '' @ table))"
    by (simp add: select_result not_found_def)
next
  assume "accepted_login c \<and> parse_thing thing = Inr (table, Some rid) \<and>
    decoded_reply env s (session c)
      (the_request c ''POST'' (key_uri table (Some rid)) (Some (json_dumps env False data)) None)
      = Inr response \<and> \<not> py_bool response"
  then show "fst (create env c thing data s)
          = Inl (SurrealException (''Key '' @ rid @ '' not found in table '' @ table))"
    by (simp add: create_result not_found_def)
next
  fix m
  assume p: "parse_thing thing = Inr (table, None)"
  show "fst (select env c thing s) \<noteq> Inl (SurrealException m)"
  proof (cases "accepted_login c")
    case True
    with p show ?thesis
      by (auto simp: select_result decoded_reply_not_Surreal first_result_not_Surreal
          split: sum.splits)
  next
    case False
    then show ?thesis
      by (simp add: refused_login)
  qed
next
  fix m
  assume p: "parse_thing thing = Inr (table, None)"
  show "fst (create env c thing data s) \<noteq> Inl (SurrealException m)"
  proof (cases "accepted_login c")
    case True
    with p show ?thesis
      by (auto simp: create_result decoded_reply_not_Surreal first_result_not_Surreal
          split: sum.splits)
  next
    case False
    then show ?thesis
      by (simp add: refused_login)
  qed
qed

theorem not_found_only_when_record_scoped_witness:
  "accepted_login stub_client \<and>
   parse_thing ''person:missing'' = Inr (''person'', Some ''missing'') \<and>
   decoded_reply (stub_env ''[]'' (JArray [])) stub_state (session stub_client)
     (the_request stub_client ''GET'' (key_uri ''person'' (Some ''missing'')) None None)
     = Inr (JArray []) \<and>
   \<not> py_bool (JArray []) \<and>
   fst (select (stub_env ''[]'' (JArray [])) stub_client ''person:missing'' stub_state)
     = Inl (SurrealException ''Key missing not found in table person'') \<and>
   fst (create (stub_env ''[]'' (JArray [])) stub_client ''person:missing'' JNull stub_state)
     = Inl (SurrealException ''Key missing not found in table person'') \<and>
   parse_thing ''person'' = Inr (''person'', None) \<and>
   fst (select (stub_env ''[]'' (JArray [])) stub_client ''person'' stub_state) = Inl IndexError"
proof -
  have p: "parse_thing ''person:missing'' = Inr (''person'', Some ''missing'')"
    by (simp add: parse_thing_def)
  have q: "parse_thing ''person'' = Inr (''person'', None)"
    by (simp add: parse_thing_def)
  have r: "\<not> py_bool (JArray [])" by simp
  note t = not_found_only_when_record_scoped
    [of stub_client "''person:missing''" "''person''" "''missing''" "stub_env ''[]'' (JArray [])"
        stub_state "JArray []" JNull]
  have i: "fst (select (stub_env ''[]'' (JArray [])) stub_client ''person'' stub_state)
             = Inl IndexError"
    by (simp add: select_result [OF stub_login q] stub_reply first_result_def)
  from t p r i q stub_login show ?thesis
    by (simp add: stub_reply)
qed

subsection \<open>Who closes the session\<close>

text \<open>
  Claim C3: a client constructed without a session creates one, owns it, and the session
  is closed when an \<^verbatim>\<open>async with\<close> block over the client is left, whatever the body
  did; a client constructed with a session of the caller's does not own it, and neither
  \<^verbatim>\<open>__aexit__\<close> nor \<^verbatim>\<open>close\<close> nor any of the eight operations changes whether
  that session is closed: exit leaves the state exactly as the body left it; and closing
  twice is the same as closing once, for any client.
\<close>

theorem scoped_use_closes_owned_session_only:
  "(init u ns db usr pw None s0 = (c, s1)
    \<longrightarrow> should_close_session c \<and> session c = next_session s0 \<and>
        \<not> session_closed (sessions s1 (session c)) \<and>
        session_closed (sessions (snd (async_with c body s)) (session c))) \<and>
   (init u ns db usr pw (Some a) s0 = (c', s1')
    \<longrightarrow> \<not> should_close_session c' \<and> session c' = a \<and> s1' = s0 \<and>
        aexit c' s' = s' \<and>
        close c' s' = s' \<and>
        snd (async_with c' body s') = snd (body c' s') \<and>
        session_closed (sessions (snd (signup env c' vars s')) a) = session_closed (sessions s' a) \<and>
        session_closed (sessions (snd (signin env c' vars s')) a) = session_closed (sessions s' a) \<and>
        session_closed (sessions (snd (query env c' sql params s')) a) = session_closed (sessions s' a) \<and>
        session_closed (sessions (snd (select env c' thing s')) a) = session_closed (sessions s' a) \<and>
        session_closed (sessions (snd (create env c' thing data s')) a) = session_closed (sessions s' a) \<and>
        session_closed (sessions (snd (update env c' thing data s')) a) = session_closed (sessions s' a) \<and>
        session_closed (sessions (snd (patch env c' thing data s')) a) = session_closed (sessions s' a) \<and>
        session_closed (sessions (snd (delete env c' thing s')) a) = session_closed (sessions s' a)) \<and>
   close k (close k t) = close k t \<and>
   aexit k (aexit k t) = aexit k t"
proof (intro conjI impI)
  assume i: "init u ns db usr pw None s0 = (c, s1)"
  then show "should_close_session c" and "session c = next_session s0"
    and "\<not> session_closed (sessions s1 (session c))"
    by (auto simp: init_def ClientSession_def)
  from i have "should_close_session c"
    by (auto simp: init_def ClientSession_def)
  then show "session_closed (sessions (snd (async_with c body s)) (session c))"
    by (simp add: async_with_def aenter_def aexit_def close_def session_close_closed
        split: prod.splits)
next
  assume i: "init u ns db usr pw (Some a) s0 = (c', s1')"
  then show b: "\<not> should_close_session c'" and "session c' = a" and "s1' = s0"
    by (auto simp: init_def)
  from b show "aexit c' s' = s'" and "close c' s' = s'"
    by (simp_all add: aexit_def close_def)
  from b show "snd (async_with c' body s') = snd (body c' s')"
    by (simp add: async_with_def aenter_def aexit_def close_def split: prod.splits)
qed (simp_all add: operations_close_nothing close_idem aexit_def)

theorem scoped_use_closes_owned_session_only_witness:
  "init ''http://localhost:8000'' ''test'' ''test'' ''root'' ''root'' None stub_state
     = (stub_client\<lparr>session := 1, should_close_session := True\<rparr>,
        stub_state\<lparr>next_session := 2\<rparr>) \<and>
   \<not> session_closed (sessions (stub_state\<lparr>next_session := 2\<rparr>) 1) \<and>
   session_closed (sessions (snd (async_with (stub_client\<lparr>session := 1, should_close_session := True\<rparr>)
       (\<lambda>db. select (stub_env ''[]'' (JArray [])) db ''person'') (stub_state\<lparr>next_session := 2\<rparr>))) 1) \<and>
   init ''http://localhost:8000'' ''test'' ''test'' ''root'' ''root'' (Some 0) stub_state
     = (stub_client, stub_state) \<and>
   \<not> session_closed (sessions stub_state 0) \<and>
   \<not> session_closed (sessions (snd (async_with stub_client
       (\<lambda>db. select (stub_env ''[]'' (JArray [])) db ''person'') stub_state)) 0)"
proof -
  have o: "init ''http://localhost:8000'' ''test'' ''test'' ''root'' ''root'' None stub_state
     = (stub_client\<lparr>session := 1, should_close_session := True\<rparr>,
        stub_state\<lparr>next_session := 2\<rparr>)"
    by (simp add: init_def ClientSession_def stub_client_def stub_state_def fun_eq_iff)
  have b: "init ''http://localhost:8000'' ''test'' ''test'' ''root'' ''root'' (Some 0) stub_state
     = (stub_client, stub_state)"
    by (simp add: init_def stub_client_def)
  have n: "\<not> session_closed (sessions stub_state 0)"
    "\<not> session_closed (sessions (stub_state\<lparr>next_session := 2\<rparr>) 1)"
    by (simp_all add: stub_state_def)
  note t = scoped_use_closes_owned_session_only
    [where u = "''http://localhost:8000''" and ns = "''test''" and db = "''test''"
       and usr = "''root''" and pw = "''root''" and ?s0.0 = stub_state
       and c = "stub_client\<lparr>session := 1, should_close_session := True\<rparr>"
       and ?s1.0 = "stub_state\<lparr>next_session := 2\<rparr>"
       and body = "\<lambda>db. select (stub_env ''[]'' (JArray [])) db ''person''"
       and s = "stub_state\<lparr>next_session := 2\<rparr>"
       and a = 0 and c' = stub_client and s1' = stub_state and s' = stub_state
       and env = "stub_env ''[]'' (JArray [])" and thing = "''person''"
       and vars = JNull and sql = "''x''" and params = None and data = JNull
       and k = stub_client and t = stub_state]
  from t o have "session_closed (sessions (snd (async_with
       (stub_client\<lparr>session := 1, should_close_session := True\<rparr>)
       (\<lambda>db. select (stub_env ''[]'' (JArray [])) db ''person'')
       (stub_state\<lparr>next_session := 2\<rparr>)))
       (session (stub_client\<lparr>session := 1, should_close_session := True\<rparr>)))"
    by blast
  then have owned: "session_closed (sessions (snd (async_with
       (stub_client\<lparr>session := 1, should_close_session := True\<rparr>)
       (\<lambda>db. select (stub_env ''[]'' (JArray [])) db ''person'')
       (stub_state\<lparr>next_session := 2\<rparr>))) 1)"
    by simp
  from t b have
    "snd (async_with stub_client (\<lambda>db. select (stub_env ''[]'' (JArray [])) db ''person'') stub_state)
       = snd (select (stub_env ''[]'' (JArray [])) stub_client ''person'' stub_state)"
    "session_closed (sessions (snd (select (stub_env ''[]'' (JArray [])) stub_client ''person'' stub_state)) 0)
       = session_closed (sessions stub_state 0)"
    by blast+
  with n have borrowed: "\<not> session_closed (sessions (snd (async_with stub_client
       (\<lambda>db. select (stub_env ''[]'' (JArray [])) db ''person'') stub_state)) 0)"
    by simp
  from o n owned b borrowed show ?thesis
    by blast
qed

subsection \<open>Headers and credentials\<close>

text \<open>
  Claim C4: the client that \<^verbatim>\<open>__init__\<close> returns holds the namespace, database,
  username and password it was given, and every request that signup, signin, query,
  select, create, update, patch or delete makes carries the headers \<^verbatim>\<open>NS\<close> and
  \<^verbatim>\<open>DB\<close> with the client's namespace and database, \<^verbatim>\<open>Accept\<close> and
  \<^verbatim>\<open>Content-Type\<close> with \<^verbatim>\<open>application/json\<close>, and Basic Auth of the client's
  username and password. The identity is read from the client's fields at each call, in
  whatever state the call is made. On a client whose login is accepted, signup, signin
  and query make exactly one request, and the other five make one when the thing
  decomposes; no request is made otherwise.
\<close>

theorem every_request_carries_identity:
  "namespace (fst (init u ns db usr pw sess s0)) = ns \<and>
   database (fst (init u ns db usr pw sess s0)) = db \<and>
   username (fst (init u ns db usr pw sess s0)) = usr \<and>
   password (fst (init u ns db usr pw sess s0)) = pw \<and>
   list_all (carries_identity (namespace c) (database c) (username c) (password c))
     (new_requests (session c) s (snd (signup env c vars s))) \<and>
   list_all (carries_identity (namespace c) (database c) (username c) (password c))
     (new_requests (session c) s (snd (signin env c vars s))) \<and>
   list_all (carries_identity (namespace c) (database c) (username c) (password c))
     (new_requests (session c) s (snd (query env c sql params s))) \<and>
   list_all (carries_identity (namespace c) (database c) (username c) (password c))
     (new_requests (session c) s (snd (select env c thing s))) \<and>
   list_all (carries_identity (namespace c) (database c) (username c) (password c))
     (new_requests (session c) s (snd (create env c thing data s))) \<and>
   list_all (carries_identity (namespace c) (database c) (username c) (password c))
     (new_requests (session c) s (snd (update env c thing data s))) \<and>
   list_all (carries_identity (namespace c) (database c) (username c) (password c))
     (new_requests (session c) s (snd (patch env c thing data s))) \<and>
   list_all (carries_identity (namespace c) (database c) (username c) (password c))
     (new_requests (session c) s (snd (delete env c thing s))) \<and>
   length (new_requests (session c) s (snd (signup env c vars s))) =
     (if accepted_login c then 1 else 0) \<and>
   length (new_requests (session c) s (snd (signin env c vars s))) =
     (if accepted_login c then 1 else 0) \<and>
   length (new_requests (session c) s (snd (query env c sql params s))) =
     (if accepted_login c then 1 else 0) \<and>
   length (new_requests (session c) s (snd (select env c thing s))) =
     (if accepted_login c \<and> \<not> isl (parse_thing thing) then 1 else 0) \<and>
   length (new_requests (session c) s (snd (create env c thing data s))) =
     (if accepted_login c \<and> \<not> isl (parse_thing thing) then 1 else 0) \<and>
   length (new_requests (session c) s (snd (update env c thing data s))) =
     (if accepted_login c \<and> \<not> isl (parse_thing thing) then 1 else 0) \<and>
   length (new_requests (session c) s (snd (patch env c thing data s))) =
     (if accepted_login c \<and> \<not> isl (parse_thing thing) then 1 else 0) \<and>
   length (new_requests (session c) s (snd (delete env c thing s))) =
     (if accepted_login c \<and> \<not> isl (parse_thing thing) then 1 else 0)"
proof -
  have "namespace (fst (init u ns db usr pw sess s0)) = ns"
    "database (fst (init u ns db usr pw sess s0)) = db"
    "username (fst (init u ns db usr pw sess s0)) = usr"
    "password (fst (init u ns db usr pw sess s0)) = pw"
    by (simp_all add: init_def split: option.splits prod.splits)
  moreover have
    "list_all (carries_identity (namespace c) (database c) (username c) (password c))
       (new_requests (session c) s (snd (signup env c vars s)))"
    "list_all (carries_identity (namespace c) (database c) (username c) (password c))
       (new_requests (session c) s (snd (signin env c vars s)))"
    "list_all (carries_identity (namespace c) (database c) (username c) (password c))
       (new_requests (session c) s (snd (query env c sql params s)))"
    "length (new_requests (session c) s (snd (signup env c vars s))) =
       (if accepted_login c then 1 else 0)"
    "length (new_requests (session c) s (snd (signin env c vars s))) =
       (if accepted_login c then 1 else 0)"
    "length (new_requests (session c) s (snd (query env c sql params s))) =
       (if accepted_login c then 1 else 0)"
    by (simp_all add: plain_operations_new the_request_carries_identity)
  moreover have
    "list_all (carries_identity (namespace c) (database c) (username c) (password c))
       (new_requests (session c) s (snd (select env c thing s)))"
    "list_all (carries_identity (namespace c) (database c) (username c) (password c))
       (new_requests (session c) s (snd (create env c thing data s)))"
    "list_all (carries_identity (namespace c) (database c) (username c) (password c))
       (new_requests (session c) s (snd (update env c thing data s)))"
    "list_all (carries_identity (namespace c) (database c) (username c) (password c))
       (new_requests (session c) s (snd (patch env c thing data s)))"
    "list_all (carries_identity (namespace c) (database c) (username c) (password c))
       (new_requests (session c) s (snd (delete env c thing s)))"
    by (simp_all add: key_operations_new the_request_carries_identity split: sum.splits prod.splits)
  moreover have
    "length (new_requests (session c) s (snd (select env c thing s))) =
       (if accepted_login c \<and> \<not> isl (parse_thing thing) then 1 else 0)"
    "length (new_requests (session c) s (snd (create env c thing data s))) =
       (if accepted_login c \<and> \<not> isl (parse_thing thing) then 1 else 0)"
    "length (new_requests (session c) s (snd (update env c thing data s))) =
       (if accepted_login c \<and> \<not> isl (parse_thing thing) then 1 else 0)"
    "length (new_requests (session c) s (snd (patch env c thing data s))) =
       (if accepted_login c \<and> \<not> isl (parse_thing thing) then 1 else 0)"
    "length (new_requests (session c) s (snd (delete env c thing s))) =
       (if accepted_login c \<and> \<not> isl (parse_thing thing) then 1 else 0)"
    by (simp_all add: key_operations_new split: sum.splits prod.splits)
  ultimately show ?thesis
    by blast
qed

subsection \<open>Delete\<close>

text \<open>
  Claim C5: on a client whose login is accepted, \<^verbatim>\<open>delete("person:abc")\<close> makes one
  request, a \<^verbatim>\<open>DELETE\<close> of \<^verbatim>\<open>/key/person/abc\<close> under the base URL with no body,
  and returns what the reply decodes to, as it is (or the exception of the transport or
  the decoder): whatever JSON value the server sends is the result, the whole list of
  envelopes and not the first envelope's result. (With a login that
  \<^verbatim>\<open>aiohttp.BasicAuth\<close> refuses, no request is made and \<^verbatim>\<open>ValueError\<close> is raised.)
\<close>

theorem delete_record_returns_raw_reply:
  "new_requests (session c) s (snd (delete env c ''person:abc'' s))
     = (if accepted_login c then [the_request c ''DELETE'' ''/key/person/abc'' None None] else []) \<and>
   req_method (the_request c ''DELETE'' ''/key/person/abc'' None None) = ''DELETE'' \<and>
   req_url (the_request c ''DELETE'' ''/key/person/abc'' None None) = url c @ ''/key/person/abc'' \<and>
   req_data (the_request c ''DELETE'' ''/key/person/abc'' None None) = None \<and>
   fst (delete env c ''person:abc'' s)
     = (if accepted_login c
        then decoded_reply env s (session c) (the_request c ''DELETE'' ''/key/person/abc'' None None)
        else Inl ValueError) \<and>
   fst (delete (stub_env body v) c ''person:abc'' s')
     = (if accepted_login c then Inr v else Inl ValueError) \<and>
   fst (delete (stub_env envelope_text envelope_json) stub_client ''person:abc'' stub_state)
     = Inr envelope_json \<and>
   first_result envelope_json \<noteq> Inr envelope_json"
proof -
  have p: "parse_thing ''person:abc'' = Inr (''person'', Some ''abc'')"
    by (simp add: parse_thing_def)
  have k: "key_uri ''person'' (Some ''abc'') = ''/key/person/abc''"
    by (simp add: key_uri_def)
  have n: "new_requests (session c) s (snd (delete env c ''person:abc'' s))
     = (if accepted_login c then [the_request c ''DELETE'' ''/key/person/abc'' None None] else [])"
    by (simp add: delete_new_cases p k)
  have f: "first_result envelope_json \<noteq> Inr envelope_json"
    by (simp add: first_result_def envelope_json_def)
  have r: "fst (delete env' c' ''person:abc'' t)
     = (if accepted_login c'
        then decoded_reply env' t (session c') (the_request c' ''DELETE'' ''/key/person/abc'' None None)
        else Inl ValueError)" for env' :: "'e env" and c' t
    using delete_result [OF _ p, of c' env' t]
    by (cases "accepted_login c'") (simp_all add: k refused_login)
  show ?thesis
    using n f r [of env c s] r [of "stub_env body v" c s']
      r [of "stub_env envelope_text envelope_json" stub_client stub_state]
    by (simp add: the_request_def stub_reply stub_login)
qed

subsection \<open>Query\<close>

text \<open>
  Claim C6: on a client whose login is accepted, \<^verbatim>\<open>query(sql, vars)\<close> makes one
  request, a \<^verbatim>\<open>POST\<close> of \<^verbatim>\<open>/sql\<close> whose body is the SQL text and whose query
  parameters are \<open>vars\<close>, and returns what the reply decodes to, as it is: nothing is
  unwrapped, and an empty list comes back as an empty list, not as an error. (With a login
  that \<^verbatim>\<open>aiohttp.BasicAuth\<close> refuses, no request is made and \<^verbatim>\<open>ValueError\<close> is
  raised.)
\<close>

theorem query_posts_sql_and_returns_raw_reply:
  "new_requests (session c) s (snd (query env c sql vars s))
     = (if accepted_login c then [the_request c ''POST'' ''/sql'' (Some sql) vars] else []) \<and>
   req_method (the_request c ''POST'' ''/sql'' (Some sql) vars) = ''POST'' \<and>
   req_url (the_request c ''POST'' ''/sql'' (Some sql) vars) = url c @ ''/sql'' \<and>
   req_data (the_request c ''POST'' ''/sql'' (Some sql) vars) = Some sql \<and>
   req_params (the_request c ''POST'' ''/sql'' (Some sql) vars) = vars \<and>
   fst (query env c sql vars s)
     = (if accepted_login c
        then decoded_reply env s (session c) (the_request c ''POST'' ''/sql'' (Some sql) vars)
        else Inl ValueError) \<and>
   fst (query (stub_env body v) c sql vars s')
     = (if accepted_login c then Inr v else Inl ValueError) \<and>
   fst (query (stub_env ''[]'' (JArray [])) stub_client
          ''select * from person'' (Some (JObject [(''tb'', JString ''person'')])) stub_state)
     = Inr (JArray []) \<and>
   fst (query (stub_env envelope_text envelope_json) stub_client
          ''select * from person'' (Some (JObject [(''tb'', JString ''person'')])) stub_state)
     = Inr envelope_json"
proof -
  have r: "fst (query env' c' sql vars t)
     = (if accepted_login c'
        then decoded_reply env' t (session c') (the_request c' ''POST'' ''/sql'' (Some sql) vars)
        else Inl ValueError)" for env' :: "'e env" and c' t sql vars
    by (cases "accepted_login c'") (simp_all add: query_def request_refused request_result)
  show ?thesis
    using r [of env c sql vars s] r [of "stub_env body v" c sql vars s']
      r [of "stub_env ''[]'' (JArray [])" stub_client]
      r [of "stub_env envelope_text envelope_json" stub_client]
    by (simp add: plain_operations_new the_request_def stub_reply stub_login)
qed

subsection \<open>Update and patch\<close>

text \<open>
  Claim C7: on a client whose login is accepted, when the thing decomposes into a table
  and an optional record id, update makes one \<^verbatim>\<open>PUT\<close> and patch one \<^verbatim>\<open>PATCH\<close> of
  \<^verbatim>\<open>/key/{table}\<close> (no id, or an empty one) or \<^verbatim>\<open>/key/{table}/{id}\<close>, with
  \<^verbatim>\<open>json.dumps(data, ensure_ascii=False)\<close> as the body. Both return
  \<^verbatim>\<open>response[0]["result"]\<close> of the decoded reply: they return a value exactly when
  the reply is a list whose first element is an object with the key \<^verbatim>\<open>result\<close>, and
  the value is the one under that key; on an empty list they raise \<^verbatim>\<open>IndexError\<close>.
  Neither ever raises \<open>SurrealException\<close>, whatever the thing, the client and the reply.
\<close>

theorem update_patch_unwrap_without_not_found_check:
  "(accepted_login c \<and> parse_thing thing = Inr (table, rid) \<longrightarrow>
     new_requests (session c) s (snd (update env c thing data s))
       = [the_request c ''PUT'' (key_uri table rid) (Some (json_dumps env False data)) None] \<and>
     new_requests (session c) s (snd (patch env c thing data s))
       = [the_request c ''PATCH'' (key_uri table rid) (Some (json_dumps env False data)) None] \<and>
     key_uri table rid =
       (case rid of
          None \<Rightarrow> ''/key/'' @ table
        | Some i \<Rightarrow> if i = [] then ''/key/'' @ table else ''/key/'' @ table @ ''/'' @ i) \<and>
     fst (update env c thing data s)
       = (case decoded_reply env s (session c)
                 (the_request c ''PUT'' (key_uri table rid) (Some (json_dumps env False data)) None) of
            Inl e \<Rightarrow> Inl e
          | Inr response \<Rightarrow> first_result response) \<and>
     fst (patch env c thing data s)
       = (case decoded_reply env s (session c)
                 (the_request c ''PATCH'' (key_uri table rid) (Some (json_dumps env False data)) None) of
            Inl e \<Rightarrow> Inl e
          | Inr response \<Rightarrow> first_result response) \<and>
     (fst (update env c thing data s) = Inr v) =
       (\<exists>kvs rest.
          decoded_reply env s (session c)
            (the_request c ''PUT'' (key_uri table rid) (Some (json_dumps env False data)) None)
            = Inr (JArray (JObject kvs # rest)) \<and> map_of kvs ''result'' = Some v) \<and>
     (fst (patch env c thing data s) = Inr v) =
       (\<exists>kvs rest.
          decoded_reply env s (session c)
            (the_request c ''PATCH'' (key_uri table rid) (Some (json_dumps env False data)) None)
            = Inr (JArray (JObject kvs # rest)) \<and> map_of kvs ''result'' = Some v) \<and>
     (decoded_reply env s (session c)
        (the_request c ''PUT'' (key_uri table rid) (Some (json_dumps env False data)) None)
        = Inr (JArray [])
      \<longrightarrow> fst (update env c thing data s) = Inl IndexError) \<and>
     (decoded_reply env s (session c)
        (the_request c ''PATCH'' (key_uri table rid) (Some (json_dumps env False data)) None)
        = Inr (JArray [])
      \<longrightarrow> fst (patch env c thing data s) = Inl IndexError)) \<and>
   (\<forall>m. fst (update env c thing data s) \<noteq> Inl (SurrealException m)) \<and>
   (\<forall>m. fst (patch env c thing data s) \<noteq> Inl (SurrealException m))"
proof (intro conjI impI allI)
  assume "accepted_login c \<and> parse_thing thing = Inr (table, rid)"
  then have a: "accepted_login c" and p: "parse_thing thing = Inr (table, rid)"
    by simp_all
  show "new_requests (session c) s (snd (update env c thing data s))
       = [the_request c ''PUT'' (key_uri table rid) (Some (json_dumps env False data)) None]"
    by (rule update_new [OF a p])
  show "new_requests (session c) s (snd (patch env c thing data s))
       = [the_request c ''PATCH'' (key_uri table rid) (Some (json_dumps env False data)) None]"
    by (rule patch_new [OF a p])
  show "key_uri table rid =
       (case rid of
          None \<Rightarrow> ''/key/'' @ table
        | Some i \<Rightarrow> if i = [] then ''/key/'' @ table else ''/key/'' @ table @ ''/'' @ i)"
    by (rule key_uri_cases)
  show "fst (update env c thing data s)
       = (case decoded_reply env s (session c)
                 (the_request c ''PUT'' (key_uri table rid) (Some (json_dumps env False data)) None) of
            Inl e \<Rightarrow> Inl e
          | Inr response \<Rightarrow> first_result response)"
    by (rule update_result [OF a p])
  show "fst (patch env c thing data s)
       = (case decoded_reply env s (session c)
                 (the_request c ''PATCH'' (key_uri table rid) (Some (json_dumps env False data)) None) of
            Inl e \<Rightarrow> Inl e
          | Inr response \<Rightarrow> first_result response)"
    by (rule patch_result [OF a p])
  show "(fst (update env c thing data s) = Inr v) =
       (\<exists>kvs rest.
          decoded_reply env s (session c)
            (the_request c ''PUT'' (key_uri table rid) (Some (json_dumps env False data)) None)
            = Inr (JArray (JObject kvs # rest)) \<and> map_of kvs ''result'' = Some v)"
    by (simp only: update_result [OF a p] unwrapped_Inr_iff)
  show "(fst (patch env c thing data s) = Inr v) =
       (\<exists>kvs rest.
          decoded_reply env s (session c)
            (the_request c ''PATCH'' (key_uri table rid) (Some (json_dumps env False data)) None)
            = Inr (JArray (JObject kvs # rest)) \<and> map_of kvs ''result'' = Some v)"
    by (simp only: patch_result [OF a p] unwrapped_Inr_iff)
  show "fst (update env c thing data s) = Inl IndexError"
    if "decoded_reply env s (session c)
        (the_request c ''PUT'' (key_uri table rid) (Some (json_dumps env False data)) None)
        = Inr (JArray [])"
    using that by (simp add: update_result [OF a p] first_result_def)
  show "fst (patch env c thing data s) = Inl IndexError"
    if "decoded_reply env s (session c)
        (the_request c ''PATCH'' (key_uri table rid) (Some (json_dumps env False data)) None)
        = Inr (JArray [])"
    using that by (simp add: patch_result [OF a p] first_result_def)
next
  fix m
  show "fst (update env c thing data s) \<noteq> Inl (SurrealException m)"
  proof (cases "accepted_login c")
    case False
    then show ?thesis
      by (simp add: refused_login)
  next
    case True
    show ?thesis
    proof (cases "parse_thing thing")
      case (Inl e)
      then show ?thesis
        by (auto simp: unparsed parse_thing_def split: if_splits elim: unpack2.elims)
    next
      case (Inr tr)
      obtain t r where "tr = (t, r)"
        by (cases tr)
      with Inr True show ?thesis
        by (auto simp: update_result decoded_reply_not_Surreal first_result_not_Surreal
            split: sum.splits)
    qed
  qed
next
  fix m
  show "fst (patch env c thing data s) \<noteq> Inl (SurrealException m)"
  proof (cases "accepted_login c")
    case False
    then show ?thesis
      by (simp add: refused_login)
  next
    case True
    show ?thesis
    proof (cases "parse_thing thing")
      case (Inl e)
      then show ?thesis
        by (auto simp: unparsed parse_thing_def split: if_splits elim: unpack2.elims)
    next
      case (Inr tr)
      obtain t r where "tr = (t, r)"
        by (cases tr)
      with Inr True show ?thesis
        by (auto simp: patch_result decoded_reply_not_Surreal first_result_not_Surreal
            split: sum.splits)
    qed
  qed
qed

theorem update_patch_unwrap_without_not_found_check_witness:
  "accepted_login stub_client \<and>
   parse_thing ''person:tobie'' = Inr (''person'', Some ''tobie'') \<and>
   new_requests (session stub_client) stub_state
       (snd (update (stub_env ''[]'' (JArray [])) stub_client ''person:tobie'' JNull stub_state))
     = [the_request stub_client ''PUT'' ''/key/person/tobie'' (Some ''<json>'') None] \<and>
   new_requests (session stub_client) stub_state
       (snd (patch (stub_env ''[]'' (JArray [])) stub_client ''person:tobie'' JNull stub_state))
     = [the_request stub_client ''PATCH'' ''/key/person/tobie'' (Some ''<json>'') None] \<and>
   fst (update (stub_env ''[]'' (JArray [])) stub_client ''person:tobie'' JNull stub_state)
     = Inl IndexError \<and>
   fst (patch (stub_env ''[]'' (JArray [])) stub_client ''person:tobie'' JNull stub_state)
     = Inl IndexError \<and>
   fst (update (stub_env envelope_text envelope_json) stub_client ''person:tobie'' JNull stub_state)
     = Inr (JArray [JObject [(''id'', JString ''person:tobie'')]]) \<and>
   fst (patch (stub_env envelope_text envelope_json) stub_client ''person:tobie'' JNull stub_state)
     = Inr (JArray [JObject [(''id'', JString ''person:tobie'')]])"
proof -
  have p: "parse_thing ''person:tobie'' = Inr (''person'', Some ''tobie'')"
    by (simp add: parse_thing_def)
  have d: "json_dumps (stub_env ''[]'' (JArray [])) False JNull = ''<json>''"
    by (simp add: stub_env_def)
  have k: "key_uri ''person'' (Some ''tobie'') = ''/key/person/tobie''"
    by (simp add: key_uri_def)
  have empty_reply:
    "\<And>req. decoded_reply (stub_env ''[]'' (JArray [])) stub_state (session stub_client) req
       = Inr (JArray [])"
    by (simp add: stub_reply)
  have full_reply:
    "\<And>req. \<exists>kvs rest.
       decoded_reply (stub_env envelope_text envelope_json) stub_state (session stub_client) req
         = Inr (JArray (JObject kvs # rest)) \<and>
       map_of kvs ''result'' = Some (JArray [JObject [(''id'', JString ''person:tobie'')]])"
    by (simp add: stub_reply envelope_json_def)
  note empty = update_patch_unwrap_without_not_found_check
    [where thing = "''person:tobie''" and table = "''person''" and rid = "Some ''tobie''"
       and c = stub_client and s = stub_state and env = "stub_env ''[]'' (JArray [])"
       and data = JNull and v = JNull]
  note full = update_patch_unwrap_without_not_found_check
    [where thing = "''person:tobie''" and table = "''person''" and rid = "Some ''tobie''"
       and c = stub_client and s = stub_state and env = "stub_env envelope_text envelope_json"
       and data = JNull and v = "JArray [JObject [(''id'', JString ''person:tobie'')]]"]
  from empty p stub_login have
    "new_requests (session stub_client) stub_state
       (snd (update (stub_env ''[]'' (JArray [])) stub_client ''person:tobie'' JNull stub_state))
     = [the_request stub_client ''PUT'' (key_uri ''person'' (Some ''tobie''))
          (Some (json_dumps (stub_env ''[]'' (JArray [])) False JNull)) None]"
    "new_requests (session stub_client) stub_state
       (snd (patch (stub_env ''[]'' (JArray [])) stub_client ''person:tobie'' JNull stub_state))
     = [the_request stub_client ''PATCH'' (key_uri ''person'' (Some ''tobie''))
          (Some (json_dumps (stub_env ''[]'' (JArray [])) False JNull)) None]"
    by blast+
  then have sent:
    "new_requests (session stub_client) stub_state
       (snd (update (stub_env ''[]'' (JArray [])) stub_client ''person:tobie'' JNull stub_state))
     = [the_request stub_client ''PUT'' ''/key/person/tobie'' (Some ''<json>'') None]"
    "new_requests (session stub_client) stub_state
       (snd (patch (stub_env ''[]'' (JArray [])) stub_client ''person:tobie'' JNull stub_state))
     = [the_request stub_client ''PATCH'' ''/key/person/tobie'' (Some ''<json>'') None]"
    by (simp_all only: d k)
  from empty p stub_login empty_reply have failed:
    "fst (update (stub_env ''[]'' (JArray [])) stub_client ''person:tobie'' JNull stub_state)
     = Inl IndexError"
    "fst (patch (stub_env ''[]'' (JArray [])) stub_client ''person:tobie'' JNull stub_state)
     = Inl IndexError"
    by blast+
  from full p stub_login full_reply have unwrapped:
    "fst (update (stub_env envelope_text envelope_json) stub_client ''person:tobie'' JNull stub_state)
     = Inr (JArray [JObject [(''id'', JString ''person:tobie'')]])"
    "fst (patch (stub_env envelope_text envelope_json) stub_client ''person:tobie'' JNull stub_state)
     = Inr (JArray [JObject [(''id'', JString ''person:tobie'')]])"
    by blast+
  from p stub_login sent failed unwrapped show ?thesis
    by blast
qed

subsection \<open>Create\<close>

text \<open>
  Claim C8: on a client whose login is accepted, \<^verbatim>\<open>create("person", {"name":
  "Tobie"})\<close> makes one request, a \<^verbatim>\<open>POST\<close> of \<^verbatim>\<open>/key/person\<close> whose body is
  \<^verbatim>\<open>json.dumps\<close> of the data, and returns \<^verbatim>\<open>response[0]["result"]\<close> of the
  decoded reply: for a reply whose first envelope has the fields time, status and result,
  the value of result. (With a login that \<^verbatim>\<open>aiohttp.BasicAuth\<close> refuses, no request
  is made and \<^verbatim>\<open>ValueError\<close> is raised.)
\<close>

theorem create_person_posts_data_and_unwraps:
  "new_requests (session c) s
       (snd (create env c ''person'' (JObject [(''name'', JString ''Tobie'')]) s))
     = (if accepted_login c
        then [the_request c ''POST'' ''/key/person''
                (Some (json_dumps env False (JObject [(''name'', JString ''Tobie'')]))) None]
        else []) \<and>
   req_method (the_request c ''POST'' ''/key/person'' d None) = ''POST'' \<and>
   req_url (the_request c ''POST'' ''/key/person'' d None) = url c @ ''/key/person'' \<and>
   req_data (the_request c ''POST'' ''/key/person'' d None) = d \<and>
   fst (create env c ''person'' (JObject [(''name'', JString ''Tobie'')]) s)
     = (if accepted_login c
        then (case decoded_reply env s (session c)
                     (the_request c ''POST'' ''/key/person''
                        (Some (json_dumps env False (JObject [(''name'', JString ''Tobie'')]))) None) of
                Inl e \<Rightarrow> Inl e
              | Inr response \<Rightarrow> first_result response)
        else Inl ValueError) \<and>
   first_result (JArray (JObject [(''time'', t), (''status'', st), (''result'', r)] # rest)) = Inr r \<and>
   fst (create (stub_env body (JArray (JObject [(''time'', t), (''status'', st), (''result'', r)] # rest)))
          c ''person'' (JObject [(''name'', JString ''Tobie'')]) s')
     = (if accepted_login c then Inr r else Inl ValueError) \<and>
   fst (create (stub_env envelope_text envelope_json) stub_client ''person''
          (JObject [(''name'', JString ''Tobie'')]) stub_state)
     = Inr (JArray [JObject [(''id'', JString ''person:tobie'')]])"
proof -
  have p: "parse_thing ''person'' = Inr (''person'', None)"
    by (simp add: parse_thing_def)
  have k: "key_uri ''person'' None = ''/key/person''"
    by (simp add: key_uri_def)
  have f: "first_result (JArray (JObject [(''time'', t), (''status'', st), (''result'', r)] # rest)) = Inr r"
    for t st r rest
    by (simp add: first_result_def)
  have n: "new_requests (session c) s
       (snd (create env c ''person'' (JObject [(''name'', JString ''Tobie'')]) s))
     = (if accepted_login c
        then [the_request c ''POST'' ''/key/person''
                (Some (json_dumps env False (JObject [(''name'', JString ''Tobie'')]))) None]
        else [])"
    by (simp add: create_new_cases p k)
  have res: "fst (create env' c' ''person'' (JObject [(''name'', JString ''Tobie'')]) u)
     = (if accepted_login c'
        then (case decoded_reply env' u (session c')
                     (the_request c' ''POST'' ''/key/person''
                        (Some (json_dumps env' False (JObject [(''name'', JString ''Tobie'')]))) None) of
                Inl e \<Rightarrow> Inl e
              | Inr response \<Rightarrow> first_result response)
        else Inl ValueError)" for env' :: "'e env" and c' u
    using create_result [OF _ p, of c' env' "JObject [(''name'', JString ''Tobie'')]" u]
    by (cases "accepted_login c'") (simp_all add: k refused_login cong: sum.case_cong)
  show ?thesis
    using n res [of env c s]
      res [of "stub_env body (JArray (JObject [(''time'', t), (''status'', st), (''result'', r)] # rest))" c s']
      res [of "stub_env envelope_text envelope_json" stub_client stub_state]
    by (simp add: f the_request_def stub_reply stub_login envelope_json_def)
qed

subsection \<open>When the unwrapping is defined\<close>

text \<open>
  Claim C9: \<^verbatim>\<open>response[0]["result"]\<close> yields a value exactly when the response is a
  non-empty list whose first element is an object with the key \<^verbatim>\<open>result\<close>; so
  whenever select, create, update or patch return a value, the decoded reply had that
  form. On the empty list the access raises \<^verbatim>\<open>IndexError\<close>: this is what a table-only
  select, and any update or patch, raise on a client whose login is accepted when the
  server answers with an empty list.
\<close>

theorem first_result_needs_an_envelope:
  "(first_result response = Inr v) =
     (\<exists>kvs rest. response = JArray (JObject kvs # rest) \<and> map_of kvs ''result'' = Some v) \<and>
   first_result (JArray []) = Inl IndexError \<and>
   (parse_thing thing = Inr (table, rid) \<longrightarrow>
      (fst (select env c thing s) = Inr v \<longrightarrow>
         (\<exists>kvs rest.
            decoded_reply env s (session c) (the_request c ''GET'' (key_uri table rid) None None)
              = Inr (JArray (JObject kvs # rest)) \<and> map_of kvs ''result'' = Some v)) \<and>
      (fst (create env c thing data s) = Inr v \<longrightarrow>
         (\<exists>kvs rest.
            decoded_reply env s (session c)
              (the_request c ''POST'' (key_uri table rid) (Some (json_dumps env False data)) None)
              = Inr (JArray (JObject kvs # rest)) \<and> map_of kvs ''result'' = Some v)) \<and>
      (fst (update env c thing data s) = Inr v \<longrightarrow>
         (\<exists>kvs rest.
            decoded_reply env s (session c)
              (the_request c ''PUT'' (key_uri table rid) (Some (json_dumps env False data)) None)
              = Inr (JArray (JObject kvs # rest)) \<and> map_of kvs ''result'' = Some v)) \<and>
      (fst (patch env c thing data s) = Inr v \<longrightarrow>
         (\<exists>kvs rest.
            decoded_reply env s (session c)
              (the_request c ''PATCH'' (key_uri table rid) (Some (json_dumps env False data)) None)
              = Inr (JArray (JObject kvs # rest)) \<and> map_of kvs ''result'' = Some v)) \<and>
      (accepted_login c \<and> rid = None \<and>
       decoded_reply env s (session c) (the_request c ''GET'' (key_uri table rid) None None)
         = Inr (JArray [])
       \<longrightarrow> fst (select env c thing s) = Inl IndexError) \<and>
      (accepted_login c \<and>
       decoded_reply env s (session c)
         (the_request c ''PUT'' (key_uri table rid) (Some (json_dumps env False data)) None)
         = Inr (JArray [])
       \<longrightarrow> fst (update env c thing data s) = Inl IndexError) \<and>
      (accepted_login c \<and>
       decoded_reply env s (session c)
         (the_request c ''PATCH'' (key_uri table rid) (Some (json_dumps env False data)) None)
         = Inr (JArray [])
       \<longrightarrow> fst (patch env c thing data s) = Inl IndexError))"
proof -
  have e: "first_result (JArray []) = Inl IndexError"
    by (simp add: first_result_def)
  have "parse_thing thing = Inr (table, rid) \<Longrightarrow> fst (select env c thing s) = Inr v \<Longrightarrow>
         (\<exists>kvs rest.
            decoded_reply env s (session c) (the_request c ''GET'' (key_uri table rid) None None)
              = Inr (JArray (JObject kvs # rest)) \<and> map_of kvs ''result'' = Some v)"
    by (cases "accepted_login c")
       (auto simp: select_result first_result_Inr_iff refused_login split: sum.splits if_splits)
  moreover have "parse_thing thing = Inr (table, rid) \<Longrightarrow> fst (create env c thing data s) = Inr v \<Longrightarrow>
         (\<exists>kvs rest.
            decoded_reply env s (session c)
              (the_request c ''POST'' (key_uri table rid) (Some (json_dumps env False data)) None)
              = Inr (JArray (JObject kvs # rest)) \<and> map_of kvs ''result'' = Some v)"
    by (cases "accepted_login c")
       (auto simp: create_result first_result_Inr_iff refused_login split: sum.splits if_splits)
  moreover have "parse_thing thing = Inr (table, rid) \<Longrightarrow> fst (update env c thing data s) = Inr v \<Longrightarrow>
         (\<exists>kvs rest.
            decoded_reply env s (session c)
              (the_request c ''PUT'' (key_uri table rid) (Some (json_dumps env False data)) None)
              = Inr (JArray (JObject kvs # rest)) \<and> map_of kvs ''result'' = Some v)"
    by (cases "accepted_login c")
       (auto simp: update_result first_result_Inr_iff refused_login split: sum.splits)
  moreover have "parse_thing thing = Inr (table, rid) \<Longrightarrow> fst (patch env c thing data s) = Inr v \<Longrightarrow>
         (\<exists>kvs rest.
            decoded_reply env s (session c)
              (the_request c ''PATCH'' (key_uri table rid) (Some (json_dumps env False data)) None)
              = Inr (JArray (JObject kvs # rest)) \<and> map_of kvs ''result'' = Some v)"
    by (cases "accepted_login c")
       (auto simp: patch_result first_result_Inr_iff refused_login split: sum.splits)
  moreover have "parse_thing thing = Inr (table, rid) \<Longrightarrow> accepted_login c \<and> rid = None \<and>
       decoded_reply env s (session c) (the_request c ''GET'' (key_uri table rid) None None)
         = Inr (JArray []) \<Longrightarrow> fst (select env c thing s) = Inl IndexError"
    by (auto simp: select_result e)
  moreover have "parse_thing thing = Inr (table, rid) \<Longrightarrow> accepted_login c \<and>
       decoded_reply env s (session c)
         (the_request c ''PUT'' (key_uri table rid) (Some (json_dumps env False data)) None)
         = Inr (JArray []) \<Longrightarrow> fst (update env c thing data s) = Inl IndexError"
    by (simp add: update_result e)
  moreover have "parse_thing thing = Inr (table, rid) \<Longrightarrow> accepted_login c \<and>
       decoded_reply env s (session c)
         (the_request c ''PATCH'' (key_uri table rid) (Some (json_dumps env False data)) None)
         = Inr (JArray []) \<Longrightarrow> fst (patch env c thing data s) = Inl IndexError"
    by (simp add: patch_result e)
  ultimately show ?thesis
    using e first_result_Inr_iff [of response v] by blast
qed

theorem first_result_needs_an_envelope_witness:
  "accepted_login stub_client \<and>
   parse_thing ''person'' = Inr (''person'', None) \<and>
   decoded_reply (stub_env ''[]'' (JArray [])) stub_state (session stub_client)
     (the_request stub_client ''GET'' (key_uri ''person'' None) None None) = Inr (JArray []) \<and>
   fst (select (stub_env ''[]'' (JArray [])) stub_client ''person'' stub_state) = Inl IndexError \<and>
   fst (update (stub_env ''[]'' (JArray [])) stub_client ''person'' JNull stub_state) = Inl IndexError \<and>
   fst (patch (stub_env ''[]'' (JArray [])) stub_client ''person'' JNull stub_state) = Inl IndexError \<and>
   fst (select (stub_env envelope_text envelope_json) stub_client ''person'' stub_state)
     = Inr (JArray [JObject [(''id'', JString ''person:tobie'')]]) \<and>
   (\<exists>kvs rest.
      decoded_reply (stub_env envelope_text envelope_json) stub_state
        (session stub_client) (the_request stub_client ''GET'' (key_uri ''person'' None) None None)
        = Inr (JArray (JObject kvs # rest)) \<and>
      map_of kvs ''result'' = Some (JArray [JObject [(''id'', JString ''person:tobie'')]]))"
proof -
  have p: "parse_thing ''person'' = Inr (''person'', None)"
    by (simp add: parse_thing_def)
  have r: "\<And>req. decoded_reply (stub_env ''[]'' (JArray [])) stub_state (session stub_client) req
      = Inr (JArray [])"
    by (simp add: stub_reply)
  have ok: "fst (select (stub_env envelope_text envelope_json) stub_client ''person'' stub_state)
     = Inr (JArray [JObject [(''id'', JString ''person:tobie'')]])"
    by (simp add: select_result [OF stub_login p] stub_reply first_result_def envelope_json_def)
  note empty = first_result_needs_an_envelope
    [where thing = "''person''" and table = "''person''" and rid = None
       and env = "stub_env ''[]'' (JArray [])" and c = stub_client and s = stub_state
       and data = JNull and response = "JArray []" and v = "JArray []"]
  note full = first_result_needs_an_envelope
    [where thing = "''person''" and table = "''person''" and rid = None
       and env = "stub_env envelope_text envelope_json"
       and c = stub_client and s = stub_state
       and data = JNull and response = "JArray []"
       and v = "JArray [JObject [(''id'', JString ''person:tobie'')]]"]
  from empty p r stub_login have
    "fst (select (stub_env ''[]'' (JArray [])) stub_client ''person'' stub_state) = Inl IndexError"
    "fst (update (stub_env ''[]'' (JArray [])) stub_client ''person'' JNull stub_state) = Inl IndexError"
    "fst (patch (stub_env ''[]'' (JArray [])) stub_client ''person'' JNull stub_state) = Inl IndexError"
    by blast+
  moreover from full p ok have
    "\<exists>kvs rest.
      decoded_reply (stub_env envelope_text envelope_json) stub_state
        (session stub_client) (the_request stub_client ''GET'' (key_uri ''person'' None) None None)
        = Inr (JArray (JObject kvs # rest)) \<and>
      map_of kvs ''result'' = Some (JArray [JObject [(''id'', JString ''person:tobie'')]])"
    by blast
  ultimately show ?thesis
    using p r ok stub_login by blast
qed

subsection \<open>A thing that ends in a colon\<close>

text \<open>
  Claim C10: for a thing made of a table name and a final colon, such as
  \<^verbatim>\<open>"person:"\<close>, the record id is the empty string. On a client whose login is
  accepted, the path is the table's, \<^verbatim>\<open>/key/{table}\<close>, because the path is chosen by
  the truth value of the id; the not-found check compares the id with None, so select and
  create still raise \<open>SurrealException\<close> on an empty reply, with an empty key in the
  message.
\<close>

theorem trailing_colon_table_path_but_not_found:
  "accepted_login c \<and> CHR '':'' \<notin> set table \<longrightarrow>
     parse_thing (table @ '':'') = Inr (table, Some []) \<and>
     key_uri table (Some []) = ''/key/'' @ table \<and>
     new_requests (session c) s (snd (select env c (table @ '':'') s))
       = [the_request c ''GET'' (''/key/'' @ table) None None] \<and>
     new_requests (session c) s (snd (create env c (table @ '':'') data s))
       = [the_request c ''POST'' (''/key/'' @ table) (Some (json_dumps env False data)) None] \<and>
     (decoded_reply env s (session c) (the_request c ''GET'' (''/key/'' @ table) None None)
        = Inr response \<and> \<not> py_bool response
      \<longrightarrow> fst (select env c (table @ '':'') s)
            = Inl (SurrealException (''Key  not found in table '' @ table))) \<and>
     (decoded_reply env s (session c)
        (the_request c ''POST'' (''/key/'' @ table) (Some (json_dumps env False data)) None)
        = Inr response \<and> \<not> py_bool response
      \<longrightarrow> fst (create env c (table @ '':'') data s)
            = Inl (SurrealException (''Key  not found in table '' @ table)))"
proof (intro impI)
  assume "accepted_login c \<and> CHR '':'' \<notin> set table"
  then have a: "accepted_login c" and t: "CHR '':'' \<notin> set table"
    by simp_all
  have p: "parse_thing (table @ '':'') = Inr (table, Some [])"
    using parse_thing_one_colon [OF t, of "[]"] by simp
  have k: "key_uri table (Some []) = ''/key/'' @ table"
    by (simp add: key_uri_def)
  show "parse_thing (table @ '':'') = Inr (table, Some []) \<and>
     key_uri table (Some []) = ''/key/'' @ table \<and>
     new_requests (session c) s (snd (select env c (table @ '':'') s))
       = [the_request c ''GET'' (''/key/'' @ table) None None] \<and>
     new_requests (session c) s (snd (create env c (table @ '':'') data s))
       = [the_request c ''POST'' (''/key/'' @ table) (Some (json_dumps env False data)) None] \<and>
     (decoded_reply env s (session c) (the_request c ''GET'' (''/key/'' @ table) None None)
        = Inr response \<and> \<not> py_bool response
      \<longrightarrow> fst (select env c (table @ '':'') s)
            = Inl (SurrealException (''Key  not found in table '' @ table))) \<and>
     (decoded_reply env s (session c)
        (the_request c ''POST'' (''/key/'' @ table) (Some (json_dumps env False data)) None)
        = Inr response \<and> \<not> py_bool response
      \<longrightarrow> fst (create env c (table @ '':'') data s)
            = Inl (SurrealException (''Key  not found in table '' @ table)))"
    using select_new [OF a p, of s env] create_new [OF a p, of s env data]
      select_result [OF a p, of env s] create_result [OF a p, of env data s]
    by (simp add: p k not_found_def)
qed

theorem trailing_colon_table_path_but_not_found_witness:
  "accepted_login stub_client \<and>
   CHR '':'' \<notin> set ''person'' \<and>
   parse_thing ''person:'' = Inr (''person'', Some []) \<and>
   new_requests (session stub_client) stub_state
       (snd (select (stub_env ''[]'' (JArray [])) stub_client ''person:'' stub_state))
     = [the_request stub_client ''GET'' ''/key/person'' None None] \<and>
   decoded_reply (stub_env ''[]'' (JArray [])) stub_state (session stub_client)
       (the_request stub_client ''GET'' ''/key/person'' None None) = Inr (JArray []) \<and>
   \<not> py_bool (JArray []) \<and>
   fst (select (stub_env ''[]'' (JArray [])) stub_client ''person:'' stub_state)
     = Inl (SurrealException ''Key  not found in table person'') \<and>
   fst (create (stub_env ''[]'' (JArray [])) stub_client ''person:'' JNull stub_state)
     = Inl (SurrealException ''Key  not found in table person'')"
proof -
  have t: "CHR '':'' \<notin> set ''person''"
    by simp
  have r: "\<And>req. decoded_reply (stub_env ''[]'' (JArray [])) stub_state (session stub_client) req
      = Inr (JArray [])"
    by (simp add: stub_reply)
  from trailing_colon_table_path_but_not_found
    [where table = "''person''" and c = stub_client and s = stub_state
       and env = "stub_env ''[]'' (JArray [])" and data = JNull and response = "JArray []"]
    t r stub_login
  show ?thesis
    by simp
qed

end
